theory Spec2Isabelle
  imports Complex_Main "HOL-Library.Multiset"
begin

section \<open>EDUFACE: recognition decision, attendance ledger and metrics\<close>

text \<open>
  A shallow embedding of \<^verbatim>\<open>src/app/db.py\<close> and of the endpoints of
  \<^verbatim>\<open>src/app/main.py\<close> that decide a recognition, write the attendance ledger and
  aggregate it. What the program takes from outside is an argument of the model: the data
  frame returned by the face-matching engine, the form fields, the environment variable
  \<^verbatim>\<open>FACE_MAX_DISTANCE\<close> and the two clock readings \<^verbatim>\<open>date.today()\<close> and
  \<^verbatim>\<open>datetime.now()\<close>. So is the sorting of pandas, which does not fix the order of rows
  of equal distance. File-system effects and printing are left out.
\<close>

subsection \<open>Floating point\<close>

text \<open>
  A Python float is an IEEE 754 double. A finite double is held as the real number it
  denotes, and each arithmetic operation rounds its exact result to the nearest double, a tie
  to the one with an even significand: 53 bits of precision, and in the subnormal range the
  fixed spacing of 2 to the power -1074. Infinities (results of magnitude 2 to the power
  1024 or more) and NaN are outside the model.
\<close>

function ilog2 :: "int \<Rightarrow> int" where
  "ilog2 n = (if n < 2 then 0 else 1 + ilog2 (n div 2))"
  by pat_completeness auto
termination
  by (relation "measure nat") auto

declare ilog2.simps [simp del]

definition pow2 :: "int \<Rightarrow> real" where
  "pow2 e = (if 0 \<le> e then 2 ^ nat e else 1 / 2 ^ nat (- e))"

text \<open>
  The binary exponent of a non-zero real \<open>x\<close>: the integer \<open>e\<close> with
  \<open>pow2 e \<le> \<bar>x\<bar>\<close> and \<open>\<bar>x\<bar> < pow2 (e + 1)\<close>.
\<close>

definition exponent :: "real \<Rightarrow> int" where
  "exponent x =
     (let a = \<bar>x\<bar>
      in if 1 \<le> a then ilog2 \<lfloor>a\<rfloor>
         else (let k = ilog2 \<lfloor>1 / a\<rfloor>
               in if a * pow2 k = 1 then - k else - k - 1))"

definition round_half_even :: "real \<Rightarrow> int" where
  "round_half_even x =
     (let f = \<lfloor>x\<rfloor>; r = x - real_of_int f
      in if r < 1 / 2 then f else if 1 / 2 < r then f + 1 else if even f then f else f + 1)"

definition round_double :: "real \<Rightarrow> real" where
  "round_double x =
     (if x = 0 then 0
      else (let u = pow2 (max (exponent x - 52) (- 1074))
            in sgn x * real_of_int (round_half_even (\<bar>x\<bar> / u)) * u))"

text \<open>
  Subtraction and multiplication of floats and the true division of two integers, which
  Python rounds correctly from the exact quotient.
\<close>

definition fsub :: "real \<Rightarrow> real \<Rightarrow> real" where
  "fsub x y = round_double (x - y)"

definition fmul :: "real \<Rightarrow> real \<Rightarrow> real" where
  "fmul x y = round_double (x * y)"

definition fdiv :: "int \<Rightarrow> int \<Rightarrow> real" where
  "fdiv n d = round_double (real_of_int n / real_of_int d)"

text \<open>
  \<^verbatim>\<open>round(x, 2)\<close>: the exact value of the double \<open>x\<close> is rounded to the nearest
  hundredth, a tie to the even one, and the result is the double nearest to that decimal.
\<close>

definition py_round2 :: "real \<Rightarrow> real" where
  "py_round2 x = round_double (real_of_int (round_half_even (x * 100)) / 100)"

subsection \<open>Dates, times of day and timestamps\<close>

text \<open>
  \<^verbatim>\<open>datetime.date\<close>, \<^verbatim>\<open>datetime.time\<close> and a naive \<^verbatim>\<open>datetime.datetime\<close>.
  Python orders each of them as the tuple of its fields.
\<close>

record date =
  year :: nat
  month :: nat
  day :: nat

record time =
  hour :: nat
  minute :: nat
  second :: nat
  microsecond :: nat

record datetime =
  dt_date :: date
  dt_time :: time

definition date_lt :: "date \<Rightarrow> date \<Rightarrow> bool" where
  "date_lt a b \<longleftrightarrow>
     year a < year b \<or> (year a = year b \<and>
       (month a < month b \<or> (month a = month b \<and> day a < day b)))"

definition date_le :: "date \<Rightarrow> date \<Rightarrow> bool" where
  "date_le a b \<longleftrightarrow> date_lt a b \<or> a = b"

definition time_lt :: "time \<Rightarrow> time \<Rightarrow> bool" where
  "time_lt a b \<longleftrightarrow>
     hour a < hour b \<or> (hour a = hour b \<and>
       (minute a < minute b \<or> (minute a = minute b \<and>
         (second a < second b \<or> (second a = second b \<and> microsecond a < microsecond b)))))"

definition time_le :: "time \<Rightarrow> time \<Rightarrow> bool" where
  "time_le a b \<longleftrightarrow> time_lt a b \<or> a = b"

definition datetime_lt :: "datetime \<Rightarrow> datetime \<Rightarrow> bool" where
  "datetime_lt a b \<longleftrightarrow>
     date_lt (dt_date a) (dt_date b) \<or> (dt_date a = dt_date b \<and> time_lt (dt_time a) (dt_time b))"

text \<open>\<^verbatim>\<open>datetime.strptime('HH:MM', '%H:%M').time()\<close> for the literals of the source.\<close>

definition hm :: "nat \<Rightarrow> nat \<Rightarrow> time" where
  "hm h m = \<lparr>hour = h, minute = m, second = 0, microsecond = 0\<rparr>"

subsection \<open>Errors and responses\<close>

text \<open>An \<^verbatim>\<open>HTTPException\<close> keeps its status code; the detail text is left out.\<close>

datatype error =
    HTTPException nat
  | IntegrityError
  | MultipleResultsFound
  | IndexError
  | ZeroDivisionError

text \<open>
  The endpoints return JSON objects. A dictionary literal is an association list in the
  order of the source; a date and a timestamp are kept as values where the source renders
  them with \<^verbatim>\<open>str\<close> and \<^verbatim>\<open>isoformat\<close>.
\<close>

datatype json =
    JStr string
  | JNum real
  | JInt int
  | JBool bool
  | JDate date
  | JDateTime datetime
  | JObj "(string \<times> json) list"

type_synonym response = "(string \<times> json) list"

subsection \<open>The tables of \<^verbatim>\<open>db.py\<close>\<close>

text \<open>
  \<^verbatim>\<open>Student\<close> and \<^verbatim>\<open>Attendance\<close>; the primary keys are \<open>st_id\<close> and \<open>att_id\<close>
  (\<^verbatim>\<open>id\<close> in the source), \<open>st_section\<close> is \<^verbatim>\<open>section\<close>, \<open>att_date\<close> and \<open>att_time\<close> are
  \<^verbatim>\<open>date\<close> and \<^verbatim>\<open>time\<close>. A nullable column is an option.
\<close>

record student =
  st_id :: int
  code :: string
  name :: string
  grade :: "string option"
  st_section :: "string option"
  gender :: "string option"
  registration_date :: "date option"
  photo_path :: "string option"

record attendance =
  att_id :: int
  student_id :: int
  att_date :: date
  att_time :: datetime
  status :: string

record database =
  students :: "student list"
  attendances :: "attendance list"

definition init_db :: database where
  "init_db = \<lparr>students = [], attendances = []\<rparr>"

text \<open>
  The constraints the schema declares: both primary keys, \<^verbatim>\<open>unique=True\<close> on
  \<^verbatim>\<open>Student.code\<close> and \<^verbatim>\<open>uq_attendance_student_date\<close>.
\<close>

definition db_ok :: "database \<Rightarrow> bool" where
  "db_ok db \<longleftrightarrow>
     distinct (map st_id (students db)) \<and>
     distinct (map code (students db)) \<and>
     distinct (map att_id (attendances db)) \<and>
     distinct (map (\<lambda>a. (student_id a, att_date a)) (attendances db))"

text \<open>
  SQLite gives a row inserted without a key the largest key of the table plus one
  (the columns are \<^verbatim>\<open>INTEGER PRIMARY KEY\<close> without \<^verbatim>\<open>AUTOINCREMENT\<close>).
\<close>

definition next_id :: "int list \<Rightarrow> int" where
  "next_id ids = foldr max ids 0 + 1"

text \<open>\<^verbatim>\<open>Query.one_or_none()\<close>.\<close>

fun one_or_none :: "'a list \<Rightarrow> error + 'a option" where
  "one_or_none [] = Inr None"
| "one_or_none [x] = Inr (Some x)"
| "one_or_none (x # y # zs) = Inl MultipleResultsFound"

text \<open>\<^verbatim>\<open>db.get(Student, student_id)\<close>: the row with that primary key.\<close>

definition db_get :: "database \<Rightarrow> int \<Rightarrow> student option" where
  "db_get db sid = find (\<lambda>s. st_id s = sid) (students db)"

text \<open>
  \<^verbatim>\<open>db.add(x); db.commit(); db.refresh(x)\<close>: the insert fails with an integrity error
  when a unique constraint would be violated, and then nothing is written.
\<close>

definition add_student :: "student \<Rightarrow> database \<Rightarrow> (error + student) \<times> database" where
  "add_student s db =
     (if code s \<in> set (map code (students db)) then (Inl IntegrityError, db)
      else (let s' = s\<lparr>st_id := next_id (map st_id (students db))\<rparr>
            in (Inr s', db\<lparr>students := students db @ [s']\<rparr>)))"

definition add_attendance :: "attendance \<Rightarrow> database \<Rightarrow> (error + attendance) \<times> database" where
  "add_attendance a db =
     (if (student_id a, att_date a) \<in> set (map (\<lambda>x. (student_id x, att_date x)) (attendances db))
      then (Inl IntegrityError, db)
      else (let a' = a\<lparr>att_id := next_id (map att_id (attendances db))\<rparr>
            in (Inr a', db\<lparr>attendances := attendances db @ [a']\<rparr>)))"

subsection \<open>Recognition defaults\<close>

text \<open>
  \<^verbatim>\<open>str.lower\<close> on the code points below 256, where it maps the ASCII capitals and the
  Latin-1 capitals \<^verbatim>\<open>0xC0\<close> to \<^verbatim>\<open>0xDE\<close> (but not the sign \<^verbatim>\<open>0xD7\<close>) to the code
  point 32 above; and the substring test \<^verbatim>\<open>sub in s\<close>.
\<close>

definition lower_char :: "char \<Rightarrow> char" where
  "lower_char c =
     (case map_of (zip ''ABCDEFGHIJKLMNOPQRSTUVWXYZ'' ''abcdefghijklmnopqrstuvwxyz'') c of
        Some l \<Rightarrow> l
      | None \<Rightarrow>
          (let n = (of_char c :: nat)
           in if 192 \<le> n \<and> n \<le> 222 \<and> n \<noteq> 215 then char_of (n + 32) else c))"

definition lower :: "string \<Rightarrow> string" where
  "lower s = map lower_char s"

fun contains :: "string \<Rightarrow> string \<Rightarrow> bool" where
  "contains sub [] = (sub = [])"
| "contains sub (c # cs) = (take (length sub) (c # cs) = sub \<or> contains sub cs)"

definition defaults_for_model :: "string \<Rightarrow> string \<times> real" where
  "defaults_for_model model_name =
     (let nm = lower model_name
      in if contains ''arc'' nm then (''euclidean_l2'', round_double 1.20)
         else if contains ''facenet'' nm then (''cosine'', round_double 0.30)
         else (''cosine'', round_double 0.30))"

text \<open>\<^verbatim>\<open>os.path.dirname\<close> and \<^verbatim>\<open>os.path.basename\<close> of \<^verbatim>\<open>posixpath\<close>.\<close>

definition is_sep :: "char \<Rightarrow> bool" where
  "is_sep c \<longleftrightarrow> c = CHR ''/''"

definition basename :: "string \<Rightarrow> string" where
  "basename p = rev (takeWhile (\<lambda>c. \<not> is_sep c) (rev p))"

definition dirname :: "string \<Rightarrow> string" where
  "dirname p =
     (let head = rev (dropWhile (\<lambda>c. \<not> is_sep c) (rev p))
      in if head \<noteq> [] \<and> \<not> list_all is_sep head then rev (dropWhile is_sep (rev head))
         else head)"

subsection \<open>\<^verbatim>\<open>attendance_mark\<close>\<close>

record candidate =
  identity :: string
  distance :: real

text \<open>
  What \<^verbatim>\<open>DeepFace.find\<close> returns: a list of data frames or a single one; a frame may
  be \<^verbatim>\<open>None\<close>. Line 852 takes the first frame of a list, which raises on the empty list,
  and nothing in the endpoint catches that.
\<close>

datatype find_result = Frames "candidate list option list" | Frame "candidate list option"

fun first_frame :: "find_result \<Rightarrow> error + candidate list option" where
  "first_frame (Frames []) = Inl IndexError"
| "first_frame (Frames (f # fs)) = Inr f"
| "first_frame (Frame f) = Inr f"

text \<open>
  \<^verbatim>\<open>df.sort_values('distance')\<close> is an argument \<open>sort_values\<close> of the decision: pandas
  returns the rows in ascending order of distance, and which of several rows of equal
  distance comes first is not fixed by its default algorithm. \<open>ascending\<close> says what
  is known of its result on a frame.
\<close>

definition ascending :: "(candidate list \<Rightarrow> candidate list) \<Rightarrow> candidate list \<Rightarrow> bool" where
  "ascending sort_values rows \<longleftrightarrow>
     sorted (map distance (sort_values rows)) \<and> mset (sort_values rows) = mset rows"

text \<open>The form of \<^verbatim>\<open>POST /attendance/mark\<close>, with the engine's result.\<close>

record mark_form =
  dfs :: find_result
  detector_backend :: string
  model_name :: string
  max_distance :: "real option"
  min_margin :: real

datatype 'a step = Raise error | Return response | Continue 'a

text \<open>Lines 852 to 867: the decision on the engine's result, up to the student code.\<close>

definition mark_decision ::
  "(candidate list \<Rightarrow> candidate list) \<Rightarrow> real \<Rightarrow> real \<Rightarrow> find_result \<Rightarrow> (string \<times> real) step" where
  "mark_decision sort_values eff_max_distance mm found =
     (case first_frame found of
        Inl e \<Rightarrow> Raise e
      | Inr None \<Rightarrow> Return [(''status'', JStr ''unknown'')]
      | Inr (Some rows) \<Rightarrow>
          if rows = [] then Return [(''status'', JStr ''unknown'')]
          else
            (case sort_values rows of
               [] \<Rightarrow> Raise IndexError
             | best # rest \<Rightarrow>
                 (let best_dist = distance best;
                      second_dist = (case rest of [] \<Rightarrow> None | row2 # _ \<Rightarrow> Some (distance row2))
                  in if best_dist > eff_max_distance then
                       Return [(''status'', JStr ''unknown''), (''reason'', JStr ''above_threshold''),
                               (''distance'', JNum best_dist)]
                     else
                       (case second_dist of
                          None \<Rightarrow> Continue (basename (dirname (identity best)), best_dist)
                        | Some sd \<Rightarrow>
                            if fsub sd best_dist < mm then
                              Return [(''status'', JStr ''unknown''), (''reason'', JStr ''low_margin''),
                                      (''distance'', JNum best_dist),
                                      (''margin'', JNum (fsub sd best_dist))]
                            else Continue (basename (dirname (identity best)), best_dist)))))"

text \<open>Lines 869 to 874: the student with that code, created when there is none.\<close>

definition mark_student :: "string \<Rightarrow> database \<Rightarrow> (error + student) \<times> database" where
  "mark_student c db =
     (case one_or_none (filter (\<lambda>s. code s = c) (students db)) of
        Inl e \<Rightarrow> (Inl e, db)
      | Inr (Some st) \<Rightarrow> (Inr st, db)
      | Inr None \<Rightarrow>
          add_student \<lparr>st_id = 0, code = c, name = c, grade = None, st_section = None,
                       gender = None, registration_date = None, photo_path = None\<rparr> db)"

text \<open>Lines 876 to 885: today's record of the student, created when there is none.\<close>

definition cutoff :: "datetime \<Rightarrow> datetime" where
  "cutoff now = now\<lparr>dt_time := \<lparr>hour = 7, minute = 30, second = 0, microsecond = 0\<rparr>\<rparr>"

definition mark_record :: "student \<Rightarrow> date \<Rightarrow> datetime \<Rightarrow> database \<Rightarrow> (error + attendance) \<times> database" where
  "mark_record st today now db =
     (case one_or_none (filter (\<lambda>a. student_id a = st_id st \<and> att_date a = today) (attendances db)) of
        Inl e \<Rightarrow> (Inl e, db)
      | Inr (Some att) \<Rightarrow> (Inr att, db)
      | Inr None \<Rightarrow>
          (let st_status = (if datetime_lt (cutoff now) now then ''Tarde'' else ''Puntual'')
           in add_attendance \<lparr>att_id = 0, student_id = st_id st, att_date = today,
                              att_time = now, status = st_status\<rparr> db))"

text \<open>
  Lines 844 and 845: the form's \<^verbatim>\<open>max_distance\<close> when given, else the environment's
  \<^verbatim>\<open>FACE_MAX_DISTANCE\<close> when set, else the default of the model family.
\<close>

definition eff_max_distance :: "real option \<Rightarrow> mark_form \<Rightarrow> real" where
  "eff_max_distance face_max_distance form =
     (let threshold_default = snd (defaults_for_model (model_name form))
      in case max_distance form of
           Some m \<Rightarrow> m
         | None \<Rightarrow> (case face_max_distance of Some e \<Rightarrow> e | None \<Rightarrow> threshold_default))"

definition attendance_mark ::
  "(candidate list \<Rightarrow> candidate list) \<Rightarrow> real option \<Rightarrow> mark_form \<Rightarrow> date \<Rightarrow> datetime \<Rightarrow>
   database \<Rightarrow> (error + response) \<times> database" where
  "attendance_mark sort_values face_max_distance form today now db =
     (case mark_decision sort_values (eff_max_distance face_max_distance form) (min_margin form)
             (dfs form) of
           Raise e \<Rightarrow> (Inl e, db)
         | Return r \<Rightarrow> (Inr r, db)
         | Continue (c, best_dist) \<Rightarrow>
             (case mark_student c db of
                (Inl e, db1) \<Rightarrow> (Inl e, db1)
              | (Inr st, db1) \<Rightarrow>
                  (case mark_record st today now db1 of
                     (Inl e, db2) \<Rightarrow> (Inl e, db2)
                   | (Inr att, db2) \<Rightarrow>
                       (Inr [(''status'', JStr ''marked''), (''student'', JStr (code st)),
                             (''attendance'', JObj [(''date'', JDate (att_date att)),
                                                    (''time'', JDateTime (att_time att)),
                                                    (''status'', JStr (status att))]),
                             (''distance'', JNum best_dist), (''model'', JStr (model_name form)),
                             (''detector'', JStr (detector_backend form))], db2))))"

subsection \<open>Clearing attendance and students\<close>

definition admin_clear_today :: "date \<Rightarrow> database \<Rightarrow> (error + response) \<times> database" where
  "admin_clear_today today db =
     (let deleted = length (filter (\<lambda>a. att_date a = today) (attendances db))
      in (Inr [(''deleted'', JInt (int deleted)), (''date'', JDate today)],
          db\<lparr>attendances := filter (\<lambda>a. att_date a \<noteq> today) (attendances db)\<rparr>))"

definition admin_clear_all :: "database \<Rightarrow> (error + response) \<times> database" where
  "admin_clear_all db =
     (Inr [(''deleted'', JInt (int (length (attendances db))))], db\<lparr>attendances := []\<rparr>)"

text \<open>The argument is the parsed \<^verbatim>\<open>target\<close>, \<open>None\<close> when \<^verbatim>\<open>strptime\<close> rejects it.\<close>

definition admin_clear_date :: "date option \<Rightarrow> database \<Rightarrow> (error + response) \<times> database" where
  "admin_clear_date target db =
     (case target of
        None \<Rightarrow> (Inl (HTTPException 400), db)
      | Some d \<Rightarrow>
          (Inr [(''deleted'', JInt (int (length (filter (\<lambda>a. att_date a = d) (attendances db))))),
                (''date'', JDate d)],
           db\<lparr>attendances := filter (\<lambda>a. att_date a \<noteq> d) (attendances db)\<rparr>))"

text \<open>
  \<^verbatim>\<open>db.query(Student).delete(synchronize_session=False)\<close> is a bulk delete of the
  students table: the relationship's cascade is an ORM feature that a bulk delete does not
  run, and the foreign key declares no \<^verbatim>\<open>ON DELETE\<close> action, so the attendance rows
  stay. \<open>files_cleaned\<close> counts removed files and is an input here.
\<close>

definition admin_clear_students_all :: "int \<Rightarrow> database \<Rightarrow> (error + response) \<times> database" where
  "admin_clear_students_all files_cleaned db =
     (Inr [(''deleted'', JInt (int (length (students db)))), (''files_cleaned'', JInt files_cleaned)],
      db\<lparr>students := []\<rparr>)"

subsection \<open>Students\<close>

text \<open>
  The payload of \<^verbatim>\<open>StudentCreate\<close> is a \<open>student\<close> whose \<open>st_id\<close> is ignored.
\<close>

definition create_student :: "student \<Rightarrow> database \<Rightarrow> (error + student) \<times> database" where
  "create_student payload db =
     (case one_or_none (filter (\<lambda>s. code s = code payload) (students db)) of
        Inl e \<Rightarrow> (Inl e, db)
      | Inr (Some existing) \<Rightarrow> (Inl (HTTPException 400), db)
      | Inr None \<Rightarrow> add_student payload db)"

text \<open>
  \<^verbatim>\<open>StudentUpdate\<close> with \<^verbatim>\<open>exclude_unset=True\<close>: a field is unset (\<open>None\<close>) or set to
  a value that may be null (\<open>Some None\<close>). The column \<^verbatim>\<open>name\<close> is not nullable, so
  the commit of a null name fails and nothing is written.
\<close>

record student_update =
  up_name :: "string option option"
  up_grade :: "string option option"
  up_section :: "string option option"
  up_gender :: "string option option"
  up_registration_date :: "date option option"
  up_photo_path :: "string option option"

definition apply_update :: "student_update \<Rightarrow> student \<Rightarrow> student" where
  "apply_update u s =
     s\<lparr>name := (case up_name u of Some (Some n) \<Rightarrow> n | _ \<Rightarrow> name s),
       grade := (case up_grade u of Some v \<Rightarrow> v | None \<Rightarrow> grade s),
       st_section := (case up_section u of Some v \<Rightarrow> v | None \<Rightarrow> st_section s),
       gender := (case up_gender u of Some v \<Rightarrow> v | None \<Rightarrow> gender s),
       registration_date := (case up_registration_date u of Some v \<Rightarrow> v | None \<Rightarrow> registration_date s),
       photo_path := (case up_photo_path u of Some v \<Rightarrow> v | None \<Rightarrow> photo_path s)\<rparr>"

definition update_student :: "int \<Rightarrow> student_update \<Rightarrow> database \<Rightarrow> (error + student) \<times> database" where
  "update_student sid payload db =
     (case db_get db sid of
        None \<Rightarrow> (Inl (HTTPException 404), db)
      | Some st \<Rightarrow>
          if up_name payload = Some None then (Inl IntegrityError, db)
          else (Inr (apply_update payload st),
                db\<lparr>students := map (\<lambda>s. if st_id s = st_id st then apply_update payload s else s)
                                    (students db)\<rparr>))"

text \<open>
  \<^verbatim>\<open>db.delete(st)\<close> goes through the ORM: the relationship \<^verbatim>\<open>attendances\<close> has
  \<^verbatim>\<open>cascade='all,delete'\<close>, so the rows whose \<^verbatim>\<open>student_id\<close> is the student's key are
  deleted with the student.
\<close>

definition delete_student :: "int \<Rightarrow> database \<Rightarrow> (error + response) \<times> database" where
  "delete_student sid db =
     (case db_get db sid of
        None \<Rightarrow> (Inl (HTTPException 404), db)
      | Some st \<Rightarrow>
          (Inr [(''deleted'', JBool True), (''files_cleaned'', JBool True)],
           db\<lparr>students := filter (\<lambda>s. st_id s \<noteq> st_id st) (students db),
              attendances := filter (\<lambda>a. student_id a \<noteq> st_id st) (attendances db)\<rparr>))"

text \<open>
  The form variants. \<^verbatim>\<open>str.strip\<close> removes white space at both ends (of the code
  points below 256: 9 to 13, 28 to 32, \<^verbatim>\<open>0x85\<close> and \<^verbatim>\<open>0xA0\<close>) and
  \<^verbatim>\<open>replace(' ', '_')\<close> maps blanks. Inputs: the clock-derived \<open>fallback\<close> code
  \<^verbatim>\<open>alumno_<timestamp>\<close>, the parsed registration date (\<open>None\<close> when absent or
  rejected) and the extension of an uploaded photo (\<open>None\<close> without upload).
\<close>

definition is_space :: "char \<Rightarrow> bool" where
  "is_space c \<longleftrightarrow> (of_char c :: nat) \<in> {9, 10, 11, 12, 13, 28, 29, 30, 31, 32, 133, 160}"

definition strip :: "string \<Rightarrow> string" where
  "strip s = rev (dropWhile is_space (rev (dropWhile is_space s)))"

definition form_code :: "string option \<Rightarrow> string \<Rightarrow> string \<Rightarrow> string" where
  "form_code code_field name_field fallback =
     (let chosen = (case code_field of
                      Some c \<Rightarrow> if c \<noteq> [] then c else if name_field \<noteq> [] then name_field else fallback
                    | None \<Rightarrow> if name_field \<noteq> [] then name_field else fallback)
      in map (\<lambda>c. if c = CHR '' '' then CHR ''_'' else c) (lower (strip chosen)))"

definition media_path :: "string \<Rightarrow> string \<Rightarrow> string" where
  "media_path c ext = ''/media/students/'' @ basename (c @ ext)"

definition create_student_form ::
  "string \<Rightarrow> string option \<Rightarrow> string option \<Rightarrow> string option \<Rightarrow> date option \<Rightarrow> string option \<Rightarrow>
   string option \<Rightarrow> string \<Rightarrow> database \<Rightarrow> (error + student) \<times> database" where
  "create_student_form name_field gr sec gen reg_date code_field photo_ext fallback db =
     (let c = form_code code_field name_field fallback
      in case one_or_none (filter (\<lambda>s. code s = c) (students db)) of
           Inl e \<Rightarrow> (Inl e, db)
         | Inr (Some existing) \<Rightarrow> (Inl (HTTPException 400), db)
         | Inr None \<Rightarrow>
             add_student \<lparr>st_id = 0, code = c, name = name_field, grade = gr, st_section = sec,
                          gender = gen, registration_date = reg_date,
                          photo_path = map_option (media_path c) photo_ext\<rparr> db)"

definition apply_form :: "string option \<Rightarrow> string option \<Rightarrow> string option \<Rightarrow> string option \<Rightarrow>
   date option \<Rightarrow> string option \<Rightarrow> student \<Rightarrow> student" where
  "apply_form name_field gr sec gen reg_date photo_ext s =
     s\<lparr>name := (case name_field of Some n \<Rightarrow> n | None \<Rightarrow> name s),
       grade := (case gr of Some v \<Rightarrow> Some v | None \<Rightarrow> grade s),
       st_section := (case sec of Some v \<Rightarrow> Some v | None \<Rightarrow> st_section s),
       gender := (case gen of Some v \<Rightarrow> Some v | None \<Rightarrow> gender s),
       registration_date := (case reg_date of Some d \<Rightarrow> Some d | None \<Rightarrow> registration_date s),
       photo_path := (case photo_ext of Some ext \<Rightarrow> Some (media_path (code s) ext) | None \<Rightarrow> photo_path s)\<rparr>"

definition update_student_form ::
  "int \<Rightarrow> string option \<Rightarrow> string option \<Rightarrow> string option \<Rightarrow> string option \<Rightarrow> date option \<Rightarrow>
   string option \<Rightarrow> database \<Rightarrow> (error + student) \<times> database" where
  "update_student_form sid name_field gr sec gen reg_date photo_ext db =
     (case db_get db sid of
        None \<Rightarrow> (Inl (HTTPException 404), db)
      | Some st \<Rightarrow>
          (Inr (apply_form name_field gr sec gen reg_date photo_ext st),
           db\<lparr>students := map (\<lambda>s. if st_id s = st_id st
                                     then apply_form name_field gr sec gen reg_date photo_ext s else s)
                               (students db)\<rparr>))"

subsection \<open>Calendar arithmetic for the named periods\<close>

text \<open>
  \<^verbatim>\<open>date.weekday()\<close> (Monday is 0) through the proleptic Gregorian ordinal, and
  \<^verbatim>\<open>d - timedelta(days=k)\<close>, \<^verbatim>\<open>d + timedelta(days=k)\<close> as \<open>k\<close> single-day steps.
\<close>

definition is_leap :: "nat \<Rightarrow> bool" where
  "is_leap y \<longleftrightarrow> y mod 4 = 0 \<and> (y mod 100 \<noteq> 0 \<or> y mod 400 = 0)"

definition days_in_month :: "nat \<Rightarrow> nat \<Rightarrow> nat" where
  "days_in_month y m =
     (if m = 2 then (if is_leap y then 29 else 28)
      else if m = 4 \<or> m = 6 \<or> m = 9 \<or> m = 11 then 30 else 31)"

definition days_before_year :: "nat \<Rightarrow> nat" where
  "days_before_year y = (y - 1) * 365 + (y - 1) div 4 - (y - 1) div 100 + (y - 1) div 400"

definition days_before_month :: "nat \<Rightarrow> nat \<Rightarrow> nat" where
  "days_before_month y m = sum_list (map (days_in_month y) [1..<m])"

definition toordinal :: "date \<Rightarrow> nat" where
  "toordinal d = days_before_year (year d) + days_before_month (year d) (month d) + day d"

definition weekday :: "date \<Rightarrow> nat" where
  "weekday d = (toordinal d + 6) mod 7"

definition prev_day :: "date \<Rightarrow> date" where
  "prev_day d =
     (if 1 < day d then d\<lparr>day := day d - 1\<rparr>
      else if 1 < month d then
        \<lparr>year = year d, month = month d - 1, day = days_in_month (year d) (month d - 1)\<rparr>
      else \<lparr>year = year d - 1, month = 12, day = 31\<rparr>)"

definition next_day :: "date \<Rightarrow> date" where
  "next_day d =
     (if day d < days_in_month (year d) (month d) then d\<lparr>day := day d + 1\<rparr>
      else if month d < 12 then \<lparr>year = year d, month = month d + 1, day = 1\<rparr>
      else \<lparr>year = year d + 1, month = 1, day = 1\<rparr>)"

definition minus_days :: "date \<Rightarrow> nat \<Rightarrow> date" where
  "minus_days d k = (prev_day ^^ k) d"

definition plus_days :: "date \<Rightarrow> nat \<Rightarrow> date" where
  "plus_days d k = (next_day ^^ k) d"

subsection \<open>Metrics\<close>

text \<open>Python truthiness of an optional string: \<^verbatim>\<open>None\<close> and \<^verbatim>\<open>''\<close> are false.\<close>

definition truthy :: "string option \<Rightarrow> bool" where
  "truthy v = (case v of None \<Rightarrow> False | Some t \<Rightarrow> t \<noteq> [])"

text \<open>
  \<^verbatim>\<open>db.query(Attendance).join(Student, Student.id == Attendance.student_id)\<close>: the inner
  join, a row for every attendance and every student with that key.
\<close>

definition joined :: "database \<Rightarrow> (attendance \<times> student) list" where
  "joined db = concat (map (\<lambda>a. map (\<lambda>s. (a, s)) (filter (\<lambda>s. st_id s = student_id a) (students db)))
                            (attendances db))"

text \<open>The filters \<^verbatim>\<open>if start:\<close>, \<^verbatim>\<open>if end:\<close>, \<^verbatim>\<open>if grade:\<close>, \<^verbatim>\<open>if section:\<close>.\<close>

definition in_range :: "date option \<Rightarrow> date option \<Rightarrow> attendance \<Rightarrow> bool" where
  "in_range start_d end_d a =
     ((case start_d of None \<Rightarrow> True | Some d \<Rightarrow> date_le d (att_date a)) \<and>
      (case end_d of None \<Rightarrow> True | Some d \<Rightarrow> date_le (att_date a) d))"

definition student_matches :: "string option \<Rightarrow> string option \<Rightarrow> student \<Rightarrow> bool" where
  "student_matches gr sec s =
     ((if truthy gr then grade s = gr else True) \<and> (if truthy sec then st_section s = sec else True))"

text \<open>\<^verbatim>\<open>GET /metrics/today\<close>.\<close>

definition metrics_today :: "date \<Rightarrow> database \<Rightarrow> response" where
  "metrics_today today db =
     (let total_students = int (length (students db));
          q = filter (\<lambda>a. att_date a = today) (attendances db);
          total_today = int (length q);
          punctual = int (length (filter (\<lambda>a. status a = ''Puntual'') q));
          late = int (length (filter (\<lambda>a. status a = ''Tarde'') q));
          absent = max (total_students - total_today) 0
      in [(''total_today'', JInt total_today), (''punctual_today'', JInt punctual),
          (''late_today'', JInt late), (''absent_today'', JInt absent)])"

text \<open>
  True division raises on a zero divisor; \<^verbatim>\<open>(n / d * 100.0) if d else 0.0\<close> divides only
  in its first branch, and multiplies the quotient, a float, by 100.
\<close>

definition py_truediv :: "int \<Rightarrow> int \<Rightarrow> error + real" where
  "py_truediv n d = (if d = 0 then Inl ZeroDivisionError else Inr (fdiv n d))"

definition pct :: "int \<Rightarrow> int \<Rightarrow> error + real" where
  "pct n d =
     (if d \<noteq> 0 then (case py_truediv n d of Inl e \<Rightarrow> Inl e | Inr q \<Rightarrow> Inr (fmul q 100)) else Inr 0)"

text \<open>Lines 1015 to 1030: a named period gives the range when no bound is given.\<close>

definition resolve_period ::
  "string option \<Rightarrow> date option \<Rightarrow> date option \<Rightarrow> date \<Rightarrow> date option \<times> date option" where
  "resolve_period period start_d end_d today =
     (if truthy period \<and> start_d = None \<and> end_d = None then
        (if period = Some ''day'' then (Some today, Some today)
         else if period = Some ''week'' then
           (let monday = minus_days today (weekday today)
            in (Some monday, Some (plus_days monday 6)))
         else if period = Some ''month'' then
           (Some (today\<lparr>day := 1\<rparr>),
            Some (if month today = 12
                  then minus_days \<lparr>year = year today + 1, month = 1, day = 1\<rparr> 1
                  else minus_days \<lparr>year = year today, month = month today + 1, day = 1\<rparr> 1))
         else (start_d, end_d))
      else (start_d, end_d))"

text \<open>
  The query of attendance rows joined with their students under the four filters, and the
  query of students under the grade and section filters.
\<close>

definition attendance_query ::
  "date option \<Rightarrow> date option \<Rightarrow> string option \<Rightarrow> string option \<Rightarrow> database \<Rightarrow>
   (attendance \<times> student) list" where
  "attendance_query start_d end_d gr sec db =
     filter (\<lambda>(a, s). in_range start_d end_d a \<and> student_matches gr sec s) (joined db)"

definition student_query :: "string option \<Rightarrow> string option \<Rightarrow> database \<Rightarrow> student list" where
  "student_query gr sec db = filter (student_matches gr sec) (students db)"

text \<open>\<^verbatim>\<open>GET /metrics/summary\<close>.\<close>

definition metrics_summary ::
  "string option \<Rightarrow> string option \<Rightarrow> string option \<Rightarrow> date option \<Rightarrow> date option \<Rightarrow> date \<Rightarrow>
   database \<Rightarrow> error + response" where
  "metrics_summary period gr sec start0 end0 today db =
     (let (start_d, end_d) = resolve_period period start0 end0 today;
          q = attendance_query start_d end_d gr sec db;
          total = int (length q);
          punctual = int (length (filter (\<lambda>(a, s). status a = ''Puntual'') q));
          late = int (length (filter (\<lambda>(a, s). status a = ''Tarde'') q));
          students_total = int (length (student_query gr sec db))
      in case pct punctual total of
           Inl e \<Rightarrow> Inl e
         | Inr punctuality \<Rightarrow>
             (case pct late total of
                Inl e \<Rightarrow> Inl e
              | Inr late_pct \<Rightarrow>
                  (let with_attendance =
                         (if start_d \<noteq> None \<and> end_d \<noteq> None
                          then attendance_query start_d end_d gr sec db
                          else attendance_query None None gr sec db);
                       students_with_attendance =
                         int (length (remdups (map (\<lambda>(a, s). student_id a) with_attendance)));
                       absent_students = students_total - students_with_attendance
                   in case pct absent_students students_total of
                        Inl e \<Rightarrow> Inl e
                      | Inr absent_pct \<Rightarrow>
                          Inr [(''students_total'', JInt students_total), (''records_total'', JInt total),
                               (''punctuality_pct'', JNum (py_round2 punctuality)),
                               (''late_pct'', JNum (py_round2 late_pct)),
                               (''absent_pct'', JNum (py_round2 absent_pct))])))"

text \<open>
  \<^verbatim>\<open>GET /metrics/detailed\<close>. A dictionary is an association list in insertion order:
  \<open>dict_incr\<close> is \<^verbatim>\<open>d[k] += 1\<close> on a key that is present and \<open>dict_count\<close> is
  \<^verbatim>\<open>d[k] = d.get(k, 0) + 1\<close>.
\<close>

definition dict_incr :: "string \<Rightarrow> (string \<times> int) list \<Rightarrow> (string \<times> int) list" where
  "dict_incr k d = map (\<lambda>(k', v). if k' = k then (k', v + 1) else (k', v)) d"

definition dict_count :: "string \<Rightarrow> (string \<times> int) list \<Rightarrow> (string \<times> int) list" where
  "dict_count k d = (case map_of d k of None \<Rightarrow> d @ [(k, 1)] | Some v \<Rightarrow> dict_incr k d)"

text \<open>Lines 1149 to 1158: the key of the bucket a time of day is counted in.\<close>

definition arrival_bucket :: "time \<Rightarrow> string" where
  "arrival_bucket t =
     (if time_le (hm 7 30) t \<and> time_lt t (hm 7 45) then ''7:30-7:45''
      else if time_lt t (hm 8 0) then ''7:45-8:00''
      else if time_lt t (hm 8 15) then ''8:00-8:15''
      else if time_lt t (hm 8 30) then ''8:15-8:30''
      else ''8:30+'')"

definition detailed_row ::
  "attendance \<times> student \<Rightarrow> (string \<times> int) list \<times> (string \<times> int) list \<Rightarrow>
   (string \<times> int) list \<times> (string \<times> int) list" where
  "detailed_row row acc =
     (case (row, acc) of
        ((att, st), (gender_counts, buckets)) \<Rightarrow>
          (dict_count (case gender st of None \<Rightarrow> ''-'' | Some g \<Rightarrow> if g = [] then ''-'' else g)
             gender_counts,
           dict_incr (arrival_bucket (dt_time (att_time att))) buckets))"

definition metrics_detailed ::
  "date option \<Rightarrow> date option \<Rightarrow> string option \<Rightarrow> string option \<Rightarrow> database \<Rightarrow> response" where
  "metrics_detailed start_d end_d gr sec db =
     (let rows = attendance_query start_d end_d gr sec db;
          (gender_counts, buckets) =
            fold detailed_row rows
              ([], [(''7:30-7:45'', 0), (''7:45-8:00'', 0), (''8:00-8:15'', 0), (''8:15-8:30'', 0),
                    (''8:30+'', 0)])
      in [(''gender_distribution'', JObj (map (\<lambda>(k, v). (k, JInt v)) gender_counts)),
          (''arrival_buckets'', JObj (map (\<lambda>(k, v). (k, JInt v)) buckets)),
          (''count'', JInt (int (length rows)))])"

text \<open>
  For the comparison with the summary's absence figure, the students of the filtered registry
  that have at least one attendance record dated within the inclusive range, as the
  specification words it.
\<close>

definition present_students ::
  "date \<Rightarrow> date \<Rightarrow> string option \<Rightarrow> string option \<Rightarrow> database \<Rightarrow> student list" where
  "present_students d1 d2 gr sec db =
     filter (\<lambda>st. list_ex (\<lambda>a. student_id a = st_id st \<and> date_le d1 (att_date a) \<and> date_le (att_date a) d2)
                         (attendances db))
            (student_query gr sec db)"

subsection \<open>The writing requests and the reachable states\<close>

datatype request =
    AttendanceMark "candidate list \<Rightarrow> candidate list" "real option" mark_form date datetime
  | CreateStudent student
  | UpdateStudent int student_update
  | DeleteStudent int
  | CreateStudentForm string "string option" "string option" "string option" "date option"
      "string option" "string option" string
  | UpdateStudentForm int "string option" "string option" "string option" "string option"
      "date option" "string option"
  | AdminClearToday date
  | AdminClearAll
  | AdminClearDate "date option"
  | AdminClearStudentsAll int

fun handle :: "request \<Rightarrow> database \<Rightarrow> database" where
  "handle (AttendanceMark srt e form today now) db = snd (attendance_mark srt e form today now db)"
| "handle (CreateStudent payload) db = snd (create_student payload db)"
| "handle (UpdateStudent sid payload) db = snd (update_student sid payload db)"
| "handle (DeleteStudent sid) db = snd (delete_student sid db)"
| "handle (CreateStudentForm n gr sec gen reg c ext fb) db =
     snd (create_student_form n gr sec gen reg c ext fb db)"
| "handle (UpdateStudentForm sid n gr sec gen reg ext) db =
     snd (update_student_form sid n gr sec gen reg ext db)"
| "handle (AdminClearToday today) db = snd (admin_clear_today today db)"
| "handle AdminClearAll db = snd (admin_clear_all db)"
| "handle (AdminClearDate target) db = snd (admin_clear_date target db)"
| "handle (AdminClearStudentsAll n) db = snd (admin_clear_students_all n db)"

inductive reachable :: "database \<Rightarrow> bool" where
  start: "reachable init_db"
| step: "reachable db \<Longrightarrow> reachable (handle r db)"

subsection \<open>Example data\<close>

text \<open>
  A day, timestamps on it, gallery paths of the layout \<^verbatim>\<open>db/<code>/profile.jpg\<close> and a
  form with the defaults of the source (\<^verbatim>\<open>ArcFace\<close>, \<^verbatim>\<open>opencv\<close>, the margin the
  double of 0.04) around a single frame; \<open>ex_sort\<close> is a sort that keeps the input order of
  equal rows.
\<close>

definition ex_day :: date where
  "ex_day = \<lparr>year = 2026, month = 11, day = 3\<rparr>"

definition ex_at :: "nat \<Rightarrow> nat \<Rightarrow> nat \<Rightarrow> datetime" where
  "ex_at h m s = \<lparr>dt_date = ex_day, dt_time = \<lparr>hour = h, minute = m, second = s, microsecond = 0\<rparr>\<rparr>"

definition ex_cand :: "string \<Rightarrow> real \<Rightarrow> candidate" where
  "ex_cand c d = \<lparr>identity = ''db/'' @ c @ ''/profile.jpg'', distance = d\<rparr>"

definition ex_form :: "candidate list \<Rightarrow> mark_form" where
  "ex_form rows = \<lparr>dfs = Frames [Some rows], detector_backend = ''opencv'', model_name = ''ArcFace'',
                   max_distance = None, min_margin = round_double 0.04\<rparr>"

definition ex_sort :: "candidate list \<Rightarrow> candidate list" where
  "ex_sort rows = sort_key distance rows"

definition ex_date :: "nat \<Rightarrow> nat \<Rightarrow> date" where
  "ex_date m d = \<lparr>year = 2026, month = m, day = d\<rparr>"

definition ex_student :: "int \<Rightarrow> string \<Rightarrow> student" where
  "ex_student i c = \<lparr>st_id = i, code = c, name = c, grade = None, st_section = None, gender = None,
                      registration_date = None, photo_path = None\<rparr>"

definition ex_record :: "int \<Rightarrow> int \<Rightarrow> date \<Rightarrow> nat \<Rightarrow> nat \<Rightarrow> string \<Rightarrow> attendance" where
  "ex_record i sid d h m st =
     \<lparr>att_id = i, student_id = sid, att_date = d,
      att_time = \<lparr>dt_date = d, dt_time = \<lparr>hour = h, minute = m, second = 0, microsecond = 0\<rparr>\<rparr>,
      status = st\<rparr>"

text \<open>
  Five students, two of them with records in the first week of November 2026 (one of them
  twice) and one with a record before it; and three students, one of them with a record.
\<close>

definition ex_five :: database where
  "ex_five =
     \<lparr>students = [ex_student 1 ''ana'', ex_student 2 ''luis'', ex_student 3 ''eva'',
                   ex_student 4 ''juan'', ex_student 5 ''sara''],
      attendances = [ex_record 1 3 (ex_date 10 30) 7 10 ''Puntual'',
                     ex_record 2 1 (ex_date 11 3) 7 20 ''Puntual'',
                     ex_record 3 2 (ex_date 11 3) 7 40 ''Tarde'',
                     ex_record 4 2 (ex_date 11 4) 7 25 ''Puntual'']\<rparr>"

definition ex_three :: database where
  "ex_three =
     \<lparr>students = [ex_student 1 ''ana'', ex_student 2 ''luis'', ex_student 3 ''eva''],
      attendances = [ex_record 1 2 (ex_date 11 3) 7 40 ''Tarde'']\<rparr>"

section \<open>Properties\<close>

subsection \<open>Keys, unique rows and the two lookups of \<^verbatim>\<open>attendance_mark\<close>\<close>

lemma next_id_fresh: "i \<in> set ids \<Longrightarrow> i < next_id ids"
  unfolding next_id_def by (induction ids) auto

lemma next_id_notin: "next_id ids \<notin> set ids"
  using next_id_fresh by fastforce

lemma filter_key_distinct:
  "distinct (map f xs) \<Longrightarrow> length (filter (\<lambda>x. f x = k) xs) \<le> 1"
proof (induction xs)
  case Nil
  then show ?case by simp
next
  case (Cons x xs)
  show ?case
  proof (cases "f x = k")
    case True
    from Cons.prems have "f x \<notin> f ` set xs" by simp
    then have "\<And>y. y \<in> set xs \<Longrightarrow> f y \<noteq> f x" by (metis imageI)
    with True have "filter (\<lambda>y. f y = k) xs = []"
      by (auto simp: filter_empty_conv)
    with True show ?thesis by simp
  next
    case False
    with Cons show ?thesis by simp
  qed
qed

lemma one_or_none_short:
  "length xs \<le> 1 \<Longrightarrow> one_or_none xs = Inr (case xs of [] \<Rightarrow> None | x # _ \<Rightarrow> Some x)"
  by (cases xs rule: one_or_none.cases) auto

lemma one_or_none_Some: "one_or_none xs = Inr (Some x) \<Longrightarrow> xs = [x]"
  by (cases xs rule: one_or_none.cases) auto

lemma one_or_none_None: "one_or_none xs = Inr None \<Longrightarrow> xs = []"
  by (cases xs rule: one_or_none.cases) auto

lemma mark_student_ok:
  assumes "db_ok db"
  shows "\<exists>st db1. mark_student c db = (Inr st, db1) \<and> db_ok db1 \<and> code st = c \<and>
           st \<in> set (students db1) \<and> attendances db1 = attendances db \<and>
           (db1 = db \<or> (c \<notin> set (map code (students db)) \<and> db1 = db\<lparr>students := students db @ [st]\<rparr>))"
proof -
  let ?xs = "filter (\<lambda>s. code s = c) (students db)"
  have len: "length ?xs \<le> 1"
    using assms filter_key_distinct[of code "students db" c] by (simp add: db_ok_def)
  show ?thesis
  proof (cases ?xs)
    case Nil
    then have notin: "c \<notin> set (map code (students db))"
      by (auto simp: filter_empty_conv)
    with Nil assms show ?thesis
      using next_id_notin[of "map st_id (students db)"]
      by (auto simp: mark_student_def add_student_def db_ok_def Let_def)
  next
    case (Cons x rest)
    with len have xs: "?xs = [x]" by simp
    then have "x \<in> set ?xs" by simp
    then have "x \<in> set (students db)" "code x = c" by auto
    with xs assms show ?thesis by (simp add: mark_student_def)
  qed
qed

lemma mark_record_ok:
  assumes "db_ok db"
  shows "\<exists>att db2. mark_record st today now db = (Inr att, db2) \<and> db_ok db2 \<and>
           student_id att = st_id st \<and> att_date att = today \<and>
           att \<in> set (attendances db2) \<and> students db2 = students db \<and>
           (db2 = db \<or> db2 = db\<lparr>attendances := attendances db @ [att]\<rparr>)"
proof -
  let ?xs = "filter (\<lambda>a. student_id a = st_id st \<and> att_date a = today) (attendances db)"
  have "?xs = filter (\<lambda>a. (student_id a, att_date a) = (st_id st, today)) (attendances db)"
    by (rule filter_cong) auto
  then have len: "length ?xs \<le> 1"
    using assms filter_key_distinct[of "\<lambda>a. (student_id a, att_date a)" "attendances db" "(st_id st, today)"]
    by (simp add: db_ok_def)
  show ?thesis
  proof (cases ?xs)
    case Nil
    then have notin: "(st_id st, today) \<notin> set (map (\<lambda>x. (student_id x, att_date x)) (attendances db))"
      by (auto simp: filter_empty_conv)
    with Nil assms show ?thesis
      using next_id_notin[of "map att_id (attendances db)"]
      by (auto simp: mark_record_def add_attendance_def db_ok_def Let_def)
  next
    case (Cons x rest)
    with len have xs: "?xs = [x]" by simp
    then have "x \<in> set ?xs" by simp
    then have "x \<in> set (attendances db)" "student_id x = st_id st" "att_date x = today" by auto
    with xs assms show ?thesis by (simp add: mark_record_def)
  qed
qed

lemmas float_eval =
  fsub_def fmul_def fdiv_def py_round2_def round_double_def exponent_def pow2_def
  round_half_even_def ilog2.simps Let_def

lemma ascending_nonempty: "ascending srt rows \<Longrightarrow> rows \<noteq> [] \<Longrightarrow> srt rows \<noteq> []"
  by (auto simp: ascending_def)

lemma ex_sort_ascending: "ascending ex_sort rows"
  by (simp add: ascending_def ex_sort_def)

lemma attendance_mark_unknown_only_if:
  assumes "fst (attendance_mark srt e form today now db) = Inr [(''status'', JStr ''unknown'')]"
  shows "first_frame (dfs form) = Inr None \<or> first_frame (dfs form) = Inr (Some [])"
  using assms
  by (auto simp: attendance_mark_def mark_decision_def Let_def
      split: option.splits if_splits list.splits prod.splits sum.splits step.splits)

subsection \<open>An engine result without candidates\<close>

text \<open>
  An empty first frame, or \<^verbatim>\<open>None\<close> in its place, gives the object
  \<^verbatim>\<open>{"status": "unknown"}\<close> alone and leaves the database as it was; no other input gives
  that response. An empty list of frames makes line 852 raise, and the request fails.
\<close>

lemma attendance_mark_empty_frame:
  "(fst (attendance_mark srt e form today now db) = Inr [(''status'', JStr ''unknown'')] \<longleftrightarrow>
      first_frame (dfs form) = Inr None \<or> first_frame (dfs form) = Inr (Some [])) \<and>
   (first_frame (dfs form) = Inr None \<or> first_frame (dfs form) = Inr (Some []) \<longrightarrow>
      snd (attendance_mark srt e form today now db) = db)"
proof -
  have "attendance_mark srt e form today now db = (Inr [(''status'', JStr ''unknown'')], db)"
    if "first_frame (dfs form) = Inr None \<or> first_frame (dfs form) = Inr (Some [])"
    using that by (auto simp: attendance_mark_def mark_decision_def)
  with attendance_mark_unknown_only_if[of srt e form today now db] show ?thesis
    by auto
qed

lemma attendance_mark_no_frames:
  "dfs form = Frames [] \<Longrightarrow> attendance_mark srt e form today now db = (Inl IndexError, db)"
  by (simp add: attendance_mark_def mark_decision_def)

text \<open>
  C8 fails on the code when the engine returns no frame at all: the request ends in an
  \<^verbatim>\<open>IndexError\<close> instead of an unknown decision. When the engine returns an empty frame the
  decision is unknown, and the response names no reason.
\<close>

theorem no_frames_index_error:
  "attendance_mark ex_sort None ((ex_form [])\<lparr>dfs := Frames []\<rparr>) ex_day (ex_at 7 15 0) init_db =
     (Inl IndexError, init_db) \<and>
   attendance_mark ex_sort None (ex_form []) ex_day (ex_at 7 15 0) init_db =
     (Inr [(''status'', JStr ''unknown'')], init_db)"
  by (simp add: attendance_mark_def mark_decision_def ex_form_def)

subsection \<open>The decision on a non-empty candidate list\<close>

lemma mark_decision_cases:
  assumes "first_frame found = Inr (Some rows)" "srt rows = best # rest" "rows \<noteq> []"
  shows "mark_decision srt thr mm found =
     (if thr < distance best then
        Return [(''status'', JStr ''unknown''), (''reason'', JStr ''above_threshold''),
                (''distance'', JNum (distance best))]
      else if rest \<noteq> [] \<and> fsub (distance (hd rest)) (distance best) < mm then
        Return [(''status'', JStr ''unknown''), (''reason'', JStr ''low_margin''),
                (''distance'', JNum (distance best)),
                (''margin'', JNum (fsub (distance (hd rest)) (distance best)))]
      else Continue (basename (dirname (identity best)), distance best))"
  using assms by (cases rest) (simp_all add: mark_decision_def Let_def)

lemma attendance_mark_accepted:
  assumes "mark_decision srt (eff_max_distance e form) (min_margin form) (dfs form) = Continue (c, d)"
    and "db_ok db"
  shows "\<exists>st att db1 db2.
           mark_student c db = (Inr st, db1) \<and> mark_record st today now db1 = (Inr att, db2) \<and>
           code st = c \<and> db_ok db1 \<and> db_ok db2 \<and>
           attendance_mark srt e form today now db =
             (Inr [(''status'', JStr ''marked''), (''student'', JStr c),
                   (''attendance'', JObj [(''date'', JDate (att_date att)),
                                          (''time'', JDateTime (att_time att)),
                                          (''status'', JStr (status att))]),
                   (''distance'', JNum d), (''model'', JStr (model_name form)),
                   (''detector'', JStr (detector_backend form))], db2)"
proof -
  from mark_student_ok[OF assms(2), of c] obtain st db1 where
    s: "mark_student c db = (Inr st, db1)" "db_ok db1" "code st = c" by blast
  from mark_record_ok[OF s(2), of st today now] obtain att db2 where
    r: "mark_record st today now db1 = (Inr att, db2)" "db_ok db2" by blast
  from assms(1) s r show ?thesis
    by (simp add: attendance_mark_def)
qed

text \<open>
  C3: for a non-empty first frame, with \<open>best\<close> the first row after sorting ascending by
  distance (a row of least distance, whichever pandas puts first among equals) and the
  threshold \<open>eff_max_distance\<close>: a best distance above the threshold gives \<^verbatim>\<open>unknown\<close> with
  reason \<^verbatim>\<open>above_threshold\<close> and the best distance, whatever the margin; otherwise a
  second row whose distance minus the best, as the float subtraction gives it, is less than
  \<^verbatim>\<open>min_margin\<close> gives \<^verbatim>\<open>unknown\<close> with reason \<^verbatim>\<open>low_margin\<close>, the best distance and
  that margin; otherwise the call is accepted and the response names the student code of the
  best row's gallery path and the best distance. In the two rejections the database is
  unchanged.
\<close>

theorem attendance_mark_decision:
  assumes "first_frame (dfs form) = Inr (Some rows)" and "rows \<noteq> []"
    and "ascending srt rows" and "db_ok db"
  shows "\<exists>best rest.
           srt rows = best # rest \<and> best \<in> set rows \<and> (\<forall>c \<in> set rows. distance best \<le> distance c) \<and>
           (if eff_max_distance e form < distance best then
              attendance_mark srt e form today now db =
                (Inr [(''status'', JStr ''unknown''), (''reason'', JStr ''above_threshold''),
                      (''distance'', JNum (distance best))], db)
            else if rest \<noteq> [] \<and> fsub (distance (hd rest)) (distance best) < min_margin form then
              attendance_mark srt e form today now db =
                (Inr [(''status'', JStr ''unknown''), (''reason'', JStr ''low_margin''),
                      (''distance'', JNum (distance best)),
                      (''margin'', JNum (fsub (distance (hd rest)) (distance best)))], db)
            else
              (\<exists>(att::attendance) db'. attendance_mark srt e form today now db =
                (Inr [(''status'', JStr ''marked''),
                      (''student'', JStr (basename (dirname (identity best)))),
                      (''attendance'', JObj [(''date'', JDate (att_date att)),
                                             (''time'', JDateTime (att_time att)),
                                             (''status'', JStr (status att))]),
                      (''distance'', JNum (distance best)), (''model'', JStr (model_name form)),
                      (''detector'', JStr (detector_backend form))], db')))"
proof -
  from ascending_nonempty[OF assms(3) assms(2)] obtain best rest where
    sv: "srt rows = best # rest" by (cases "srt rows") auto
  have srt: "sorted (map distance (best # rest))"
    using sv assms(3) by (simp add: ascending_def)
  have "set (srt rows) = set rows"
    using assms(3) by (metis ascending_def set_mset_mset)
  with sv have st: "set (best # rest) = set rows" by simp
  then have mem: "best \<in> set rows" by auto
  have least: "\<forall>c \<in> set rows. distance best \<le> distance c"
    using srt st by auto
  let ?thr = "eff_max_distance e form"
  note dec = mark_decision_cases[where srt = srt and thr = ?thr and mm = "min_margin form",
      OF assms(1) sv assms(2)]
  consider (above) "?thr < distance best"
    | (low) "\<not> ?thr < distance best"
        "rest \<noteq> [] \<and> fsub (distance (hd rest)) (distance best) < min_margin form"
    | (acc) "\<not> ?thr < distance best"
        "\<not> (rest \<noteq> [] \<and> fsub (distance (hd rest)) (distance best) < min_margin form)"
    by blast
  then have "if ?thr < distance best then
              attendance_mark srt e form today now db =
                (Inr [(''status'', JStr ''unknown''), (''reason'', JStr ''above_threshold''),
                      (''distance'', JNum (distance best))], db)
            else if rest \<noteq> [] \<and> fsub (distance (hd rest)) (distance best) < min_margin form then
              attendance_mark srt e form today now db =
                (Inr [(''status'', JStr ''unknown''), (''reason'', JStr ''low_margin''),
                      (''distance'', JNum (distance best)),
                      (''margin'', JNum (fsub (distance (hd rest)) (distance best)))], db)
            else
              (\<exists>(att::attendance) db'. attendance_mark srt e form today now db =
                (Inr [(''status'', JStr ''marked''),
                      (''student'', JStr (basename (dirname (identity best)))),
                      (''attendance'', JObj [(''date'', JDate (att_date att)),
                                             (''time'', JDateTime (att_time att)),
                                             (''status'', JStr (status att))]),
                      (''distance'', JNum (distance best)), (''model'', JStr (model_name form)),
                      (''detector'', JStr (detector_backend form))], db'))"
  proof cases
    case above
    with dec show ?thesis by (simp add: attendance_mark_def)
  next
    case low
    with dec show ?thesis by (simp add: attendance_mark_def)
  next
    case acc
    with dec have
      "mark_decision srt ?thr (min_margin form) (dfs form) =
         Continue (basename (dirname (identity best)), distance best)"
      by simp
    from attendance_mark_accepted[OF this assms(4), of today now]
    have "\<exists>(att::attendance) db'. attendance_mark srt e form today now db =
                (Inr [(''status'', JStr ''marked''),
                      (''student'', JStr (basename (dirname (identity best)))),
                      (''attendance'', JObj [(''date'', JDate (att_date att)),
                                             (''time'', JDateTime (att_time att)),
                                             (''status'', JStr (status att))]),
                      (''distance'', JNum (distance best)), (''model'', JStr (model_name form)),
                      (''detector'', JStr (detector_backend form))], db')"
      by blast
    then show ?thesis by (simp only: acc if_False)
  qed
  with sv mem least show ?thesis by blast
qed

theorem attendance_mark_decision_witness:
  "\<exists>(att::attendance) db'.
     attendance_mark ex_sort None (ex_form [ex_cand ''ana'' 0.5, ex_cand ''luis'' 0.25]) ex_day
         (ex_at 7 15 0) init_db =
       (Inr [(''status'', JStr ''marked''), (''student'', JStr ''luis''),
             (''attendance'', JObj [(''date'', JDate (att_date att)),
                                    (''time'', JDateTime (att_time att)),
                                    (''status'', JStr (status att))]),
             (''distance'', JNum 0.25), (''model'', JStr ''ArcFace''),
             (''detector'', JStr ''opencv'')], db')"
proof -
  let ?rows = "[ex_cand ''ana'' 0.5, ex_cand ''luis'' 0.25]"
  have h1: "first_frame (dfs (ex_form ?rows)) = Inr (Some ?rows)" by (simp add: ex_form_def)
  have h2: "?rows \<noteq> []" by simp
  have h3: "db_ok init_db" by (simp add: db_ok_def init_db_def)
  from attendance_mark_decision[OF h1 h2 ex_sort_ascending h3, of None ex_day "ex_at 7 15 0"]
  show ?thesis
    by (simp add: ex_sort_def eff_max_distance_def defaults_for_model_def lower_def lower_char_def
        ex_form_def ex_cand_def basename_def dirname_def is_sep_def float_eval)
qed

text \<open>
  The margin is the float difference and not the exact one: for the doubles of 0.004897 and
  0.044897 and the margin of the source, the double of 0.04, the exact difference is below the
  margin and the float difference equals it, and the call is accepted.
\<close>

lemma margin_is_float_difference:
  "round_double 0.044897 - round_double 0.004897 < round_double 0.04 \<and>
   fsub (round_double 0.044897) (round_double 0.004897) = round_double 0.04 \<and>
   fst (attendance_mark ex_sort None
          (ex_form [ex_cand ''ana'' (round_double 0.004897), ex_cand ''luis'' (round_double 0.044897)])
          ex_day (ex_at 7 15 0) init_db) =
     Inr [(''status'', JStr ''marked''), (''student'', JStr ''ana''),
          (''attendance'', JObj [(''date'', JDate ex_day), (''time'', JDateTime (ex_at 7 15 0)),
                                 (''status'', JStr ''Puntual'')]),
          (''distance'', JNum (round_double 0.004897)), (''model'', JStr ''ArcFace''),
          (''detector'', JStr ''opencv'')]"
  by (simp add: attendance_mark_def mark_decision_def ex_sort_def eff_max_distance_def
        defaults_for_model_def lower_def lower_char_def ex_form_def ex_cand_def ex_at_def ex_day_def
        basename_def dirname_def is_sep_def
        mark_student_def mark_record_def add_student_def add_attendance_def init_db_def next_id_def
        datetime_lt_def cutoff_def time_lt_def date_lt_def float_eval)

subsection \<open>Punctuality of a new record\<close>

lemma time_le_iff_not_lt: "time_le t c \<longleftrightarrow> \<not> time_lt c t"
  by (cases t; cases c) (auto simp: time_le_def time_lt_def)

lemma after_cutoff: "datetime_lt (cutoff now) now \<longleftrightarrow> time_lt (hm 7 30) (dt_time now)"
  by (simp add: datetime_lt_def cutoff_def date_lt_def hm_def)

lemma mark_student_attendances: "attendances (snd (mark_student c db)) = attendances db"
  by (simp add: mark_student_def add_student_def Let_def split: sum.splits option.splits)

lemma mark_record_new:
  assumes "attendances (snd (mark_record st today now db)) \<noteq> attendances db"
  shows "\<exists>a. mark_record st today now db = (Inr a, db\<lparr>attendances := attendances db @ [a]\<rparr>) \<and>
           student_id a = st_id st \<and> att_date a = today \<and> att_time a = now \<and>
           status a = (if time_lt (hm 7 30) (dt_time now) then ''Tarde'' else ''Puntual'')"
  using assms
  by (auto simp: mark_record_def add_attendance_def Let_def after_cutoff
      split: sum.splits option.splits if_splits)

text \<open>
  C4: a call of \<^verbatim>\<open>attendance_mark\<close> that adds a record adds exactly one, dated today and
  timed now, and the response shows it. Its status is \<^verbatim>\<open>Puntual\<close> when the time of day of
  \<open>now\<close> is at or before 07:30:00 and \<^verbatim>\<open>Tarde\<close> when it is strictly after; the order
  is that of hour, minute, second and microsecond.
\<close>

theorem attendance_mark_status:
  assumes "attendances (snd (attendance_mark srt e form today now db)) \<noteq> attendances db"
  shows "\<exists>a r. attendances (snd (attendance_mark srt e form today now db)) = attendances db @ [a] \<and>
           fst (attendance_mark srt e form today now db) = Inr r \<and>
           map_of r ''attendance'' =
             Some (JObj [(''date'', JDate today), (''time'', JDateTime now), (''status'', JStr (status a))]) \<and>
           att_date a = today \<and> att_time a = now \<and>
           status a = (if time_le (dt_time now) (hm 7 30) then ''Puntual'' else ''Tarde'') \<and>
           status a = (if time_lt (hm 7 30) (dt_time now) then ''Tarde'' else ''Puntual'')"
proof (cases "mark_decision srt (eff_max_distance e form) (min_margin form) (dfs form)")
  case (Raise x)
  with assms show ?thesis by (simp add: attendance_mark_def)
next
  case (Return x)
  with assms show ?thesis by (simp add: attendance_mark_def)
next
  case (Continue p)
  obtain c d where p: "p = (c, d)" by (cases p)
  obtain rs db1 where ms: "mark_student c db = (rs, db1)" by (cases "mark_student c db")
  have a1: "attendances db1 = attendances db"
    using mark_student_attendances[of c db] ms by simp
  show ?thesis
  proof (cases rs)
    case (Inl x)
    with assms Continue p ms a1 show ?thesis by (simp add: attendance_mark_def)
  next
    case (Inr st)
    obtain ra db2 where mr: "mark_record st today now db1 = (ra, db2)"
      by (cases "mark_record st today now db1")
    have am: "attendance_mark srt e form today now db =
        (case ra of Inl x \<Rightarrow> (Inl x, db2)
         | Inr att \<Rightarrow> (Inr [(''status'', JStr ''marked''), (''student'', JStr (code st)),
                             (''attendance'', JObj [(''date'', JDate (att_date att)),
                                                    (''time'', JDateTime (att_time att)),
                                                    (''status'', JStr (status att))]),
                             (''distance'', JNum d), (''model'', JStr (model_name form)),
                             (''detector'', JStr (detector_backend form))], db2))"
      using Continue p ms Inr mr by (simp add: attendance_mark_def)
    have "snd (attendance_mark srt e form today now db) = db2"
      using am by (cases ra) simp_all
    with assms a1 mr have "attendances (snd (mark_record st today now db1)) \<noteq> attendances db1"
      by simp
    from mark_record_new[OF this] mr obtain a where
      a: "ra = Inr a" "db2 = db1\<lparr>attendances := attendances db1 @ [a]\<rparr>"
         "att_date a = today" "att_time a = now"
         "status a = (if time_lt (hm 7 30) (dt_time now) then ''Tarde'' else ''Puntual'')"
      by auto
    with am a1 show ?thesis
      by (auto simp: time_le_iff_not_lt)
  qed
qed

theorem attendance_mark_status_witness:
  "(\<exists>a. attendances (snd (attendance_mark ex_sort None (ex_form [ex_cand ''luis'' 0.25]) ex_day (ex_at 7 30 0) init_db)) = [a]
        \<and> att_time a = ex_at 7 30 0 \<and> status a = ''Puntual'') \<and>
   (\<exists>a. attendances (snd (attendance_mark ex_sort None (ex_form [ex_cand ''luis'' 0.25]) ex_day (ex_at 7 30 1) init_db)) = [a]
        \<and> att_time a = ex_at 7 30 1 \<and> status a = ''Tarde'')"
proof -
  let ?f = "ex_form [ex_cand ''luis'' 0.25]"
  have new: "attendances (snd (attendance_mark ex_sort None ?f ex_day now init_db)) \<noteq> attendances init_db" for now
    by (simp add: attendance_mark_def mark_decision_def ex_sort_def float_eval eff_max_distance_def
        defaults_for_model_def lower_def lower_char_def ex_form_def ex_cand_def
        mark_student_def mark_record_def add_student_def add_attendance_def init_db_def Let_def)
  have t0: "time_le (dt_time (ex_at 7 30 0)) (hm 7 30)"
    by (simp add: time_le_def time_lt_def ex_at_def hm_def)
  have t1: "\<not> time_le (dt_time (ex_at 7 30 1)) (hm 7 30)"
    by (simp add: time_le_def time_lt_def ex_at_def hm_def)
  from attendance_mark_status[OF new, of "ex_at 7 30 0"] attendance_mark_status[OF new, of "ex_at 7 30 1"]
  show ?thesis
    by (simp only: t0 t1 if_True if_False) (auto simp: init_db_def)
qed

subsection \<open>Marking twice on one day\<close>

lemma filter_key_unique:
  assumes "distinct (map f xs)" and "x \<in> set xs"
  shows "filter (\<lambda>y. f y = f x) xs = [x]"
proof -
  have len: "length (filter (\<lambda>y. f y = f x) xs) \<le> 1"
    by (rule filter_key_distinct[OF assms(1)])
  have mem: "x \<in> set (filter (\<lambda>y. f y = f x) xs)"
    using assms(2) by simp
  show ?thesis
  proof (cases "filter (\<lambda>y. f y = f x) xs")
    case Nil
    with mem show ?thesis by simp
  next
    case (Cons y ys)
    with len have "ys = []" by simp
    with Cons mem show ?thesis by simp
  qed
qed

lemma mark_student_found:
  assumes "db_ok db" and "st \<in> set (students db)"
  shows "mark_student (code st) db = (Inr st, db)"
proof -
  have "filter (\<lambda>s. code s = code st) (students db) = [st]"
    using assms filter_key_unique[of code "students db" st] by (simp add: db_ok_def)
  then show ?thesis by (simp add: mark_student_def)
qed

lemma record_filter:
  assumes "db_ok db" and "att \<in> set (attendances db)"
  shows "filter (\<lambda>a. student_id a = student_id att \<and> att_date a = att_date att) (attendances db) = [att]"
proof -
  have "filter (\<lambda>a. (student_id a, att_date a) = (student_id att, att_date att)) (attendances db) = [att]"
    using assms filter_key_unique[of "\<lambda>a. (student_id a, att_date a)" "attendances db" att]
    by (simp add: db_ok_def)
  then show ?thesis by simp
qed

lemma mark_record_found:
  assumes "db_ok db" and "att \<in> set (attendances db)"
    and "student_id att = st_id st" and "att_date att = today"
  shows "mark_record st today now db = (Inr att, db)"
  using record_filter[OF assms(1,2)] assms(3,4) by (simp add: mark_record_def)

text \<open>
  C2, as the code has it: when the decision accepts the same student code in two calls made
  on the same day, on a database that satisfies the schema's constraints, both calls succeed,
  the second leaves the database as the first left it, the student has exactly one record
  for that day, and the second response shows the same record (date, time and status) as the
  first. The response is the object with the keys \<^verbatim>\<open>status\<close>, \<^verbatim>\<open>student\<close>,
  \<^verbatim>\<open>attendance\<close>, \<^verbatim>\<open>distance\<close>, \<^verbatim>\<open>model\<close> and \<^verbatim>\<open>detector\<close> in both calls: it has
  no flag that tells a new record from an old one.
\<close>

theorem attendance_mark_twice:
  assumes "db_ok db"
    and "mark_decision srt1 (eff_max_distance e1 form1) (min_margin form1) (dfs form1) = Continue (c, dist1)"
    and "mark_decision srt2 (eff_max_distance e2 form2) (min_margin form2) (dfs form2) = Continue (c, dist2)"
  shows "\<exists>st att db1.
           attendance_mark srt1 e1 form1 today now1 db =
             (Inr [(''status'', JStr ''marked''), (''student'', JStr c),
                   (''attendance'', JObj [(''date'', JDate (att_date att)),
                                          (''time'', JDateTime (att_time att)),
                                          (''status'', JStr (status att))]),
                   (''distance'', JNum dist1), (''model'', JStr (model_name form1)),
                   (''detector'', JStr (detector_backend form1))], db1) \<and>
           attendance_mark srt2 e2 form2 today now2 db1 =
             (Inr [(''status'', JStr ''marked''), (''student'', JStr c),
                   (''attendance'', JObj [(''date'', JDate (att_date att)),
                                          (''time'', JDateTime (att_time att)),
                                          (''status'', JStr (status att))]),
                   (''distance'', JNum dist2), (''model'', JStr (model_name form2)),
                   (''detector'', JStr (detector_backend form2))], db1) \<and>
           filter (\<lambda>s. code s = c) (students db1) = [st] \<and>
           filter (\<lambda>a. student_id a = st_id st \<and> att_date a = today) (attendances db1) = [att]"
proof -
  from mark_student_ok[OF assms(1), of c] obtain st db0 where
    s: "mark_student c db = (Inr st, db0)" "db_ok db0" "code st = c" "st \<in> set (students db0)"
    by blast
  from mark_record_ok[OF s(2), of st today now1] obtain att db1 where
    r: "mark_record st today now1 db0 = (Inr att, db1)" "db_ok db1" "student_id att = st_id st"
       "att_date att = today" "att \<in> set (attendances db1)" "students db1 = students db0"
    by blast
  have first: "attendance_mark srt1 e1 form1 today now1 db =
             (Inr [(''status'', JStr ''marked''), (''student'', JStr c),
                   (''attendance'', JObj [(''date'', JDate (att_date att)),
                                          (''time'', JDateTime (att_time att)),
                                          (''status'', JStr (status att))]),
                   (''distance'', JNum dist1), (''model'', JStr (model_name form1)),
                   (''detector'', JStr (detector_backend form1))], db1)"
    using assms(2) s r by (simp add: attendance_mark_def)
  have st1: "st \<in> set (students db1)" using s(4) r(6) by simp
  have s2: "mark_student c db1 = (Inr st, db1)"
    using mark_student_found[OF r(2) st1] s(3) by simp
  have r2: "mark_record st today now2 db1 = (Inr att, db1)"
    by (rule mark_record_found[OF r(2) r(5) r(3) r(4)])
  have second: "attendance_mark srt2 e2 form2 today now2 db1 =
             (Inr [(''status'', JStr ''marked''), (''student'', JStr c),
                   (''attendance'', JObj [(''date'', JDate (att_date att)),
                                          (''time'', JDateTime (att_time att)),
                                          (''status'', JStr (status att))]),
                   (''distance'', JNum dist2), (''model'', JStr (model_name form2)),
                   (''detector'', JStr (detector_backend form2))], db1)"
    using assms(3) s2 r2 s(3) by (simp add: attendance_mark_def)
  have fs: "filter (\<lambda>s. code s = c) (students db1) = [st]"
    using r(2) st1 s(3) filter_key_unique[of code "students db1" st] by (simp add: db_ok_def)
  have fa: "filter (\<lambda>a. student_id a = st_id st \<and> att_date a = today) (attendances db1) = [att]"
    using record_filter[OF r(2) r(5)] r(3,4) by simp
  from first second fs fa show ?thesis by blast
qed

lemma ex_decision:
  "mark_decision ex_sort (eff_max_distance None (ex_form [ex_cand ''luis'' 0.25]))
     (min_margin (ex_form [ex_cand ''luis'' 0.25])) (dfs (ex_form [ex_cand ''luis'' 0.25])) =
   Continue (''luis'', 0.25)"
  by (simp add: mark_decision_def ex_sort_def eff_max_distance_def defaults_for_model_def
      lower_def lower_char_def ex_form_def ex_cand_def basename_def dirname_def is_sep_def float_eval)

theorem attendance_mark_twice_witness:
  "\<exists>st att db1.
     attendance_mark ex_sort None (ex_form [ex_cand ''luis'' 0.25]) ex_day (ex_at 7 15 0) init_db =
       (Inr [(''status'', JStr ''marked''), (''student'', JStr ''luis''),
             (''attendance'', JObj [(''date'', JDate (att_date att)),
                                    (''time'', JDateTime (att_time att)),
                                    (''status'', JStr (status att))]),
             (''distance'', JNum 0.25), (''model'', JStr ''ArcFace''),
             (''detector'', JStr ''opencv'')], db1) \<and>
     attendance_mark ex_sort None (ex_form [ex_cand ''luis'' 0.25]) ex_day (ex_at 9 0 0) db1 =
       (Inr [(''status'', JStr ''marked''), (''student'', JStr ''luis''),
             (''attendance'', JObj [(''date'', JDate (att_date att)),
                                    (''time'', JDateTime (att_time att)),
                                    (''status'', JStr (status att))]),
             (''distance'', JNum 0.25), (''model'', JStr ''ArcFace''),
             (''detector'', JStr ''opencv'')], db1) \<and>
     filter (\<lambda>s. code s = ''luis'') (students db1) = [st] \<and>
     filter (\<lambda>a. student_id a = st_id st \<and> att_date a = ex_day) (attendances db1) = [att]"
proof -
  have ok: "db_ok init_db" by (simp add: db_ok_def init_db_def)
  from attendance_mark_twice[OF ok ex_decision ex_decision, of ex_day "ex_at 7 15 0" "ex_at 9 0 0"]
  show ?thesis by (simp add: ex_form_def)
qed

text \<open>
  The flag of the claim does not exist: the call that creates the record and the call that
  finds it return the very same response, whose keys are the six above.
\<close>

theorem mark_twice_same_response_counterexample:
  "\<exists>r db1.
     attendance_mark ex_sort None (ex_form [ex_cand ''luis'' 0.25]) ex_day (ex_at 7 15 0) init_db = (Inr r, db1) \<and>
     attendances db1 \<noteq> attendances init_db \<and>
     attendance_mark ex_sort None (ex_form [ex_cand ''luis'' 0.25]) ex_day (ex_at 9 0 0) db1 = (Inr r, db1) \<and>
     map fst r = [''status'', ''student'', ''attendance'', ''distance'', ''model'', ''detector''] \<and>
     map_of r ''wasNew'' = None"
  by (simp add: attendance_mark_def mark_decision_def ex_sort_def float_eval eff_max_distance_def
        defaults_for_model_def lower_def lower_char_def ex_form_def ex_cand_def ex_at_def ex_day_def
        basename_def dirname_def is_sep_def
        mark_student_def mark_record_def add_student_def add_attendance_def init_db_def next_id_def Let_def
        datetime_lt_def cutoff_def time_lt_def date_lt_def)

subsection \<open>The constraints hold in every reachable state\<close>

lemma db_ok_students:
  assumes "db_ok db" and "map st_id ss = map st_id (students db)" and "map code ss = map code (students db)"
  shows "db_ok (db\<lparr>students := ss\<rparr>)"
  using assms by (simp add: db_ok_def)

lemma db_ok_filter:
  assumes "db_ok db"
  shows "db_ok (db\<lparr>students := filter P (students db), attendances := filter Q (attendances db)\<rparr>)"
  using assms by (simp add: db_ok_def distinct_map_filter)

lemma db_ok_filter_attendances:
  assumes "db_ok db"
  shows "db_ok (db\<lparr>attendances := filter Q (attendances db)\<rparr>)"
  using assms by (simp add: db_ok_def distinct_map_filter)

lemma add_student_db_ok:
  assumes "db_ok db"
  shows "db_ok (snd (add_student s db))"
  using assms next_id_notin[of "map st_id (students db)"]
  by (auto simp: add_student_def db_ok_def Let_def)

lemma apply_update_keys: "st_id (apply_update u s) = st_id s" "code (apply_update u s) = code s"
  by (simp_all add: apply_update_def)

lemma apply_form_keys:
  "st_id (apply_form n gr sec gen reg ext s) = st_id s" "code (apply_form n gr sec gen reg ext s) = code s"
  by (simp_all add: apply_form_def)

lemma attendance_mark_db_ok:
  assumes "db_ok db"
  shows "db_ok (snd (attendance_mark srt e form today now db))"
proof (cases "mark_decision srt (eff_max_distance e form) (min_margin form) (dfs form)")
  case (Raise x)
  with assms show ?thesis by (simp add: attendance_mark_def)
next
  case (Return x)
  with assms show ?thesis by (simp add: attendance_mark_def)
next
  case (Continue p)
  obtain c d where "p = (c, d)" by (cases p)
  with Continue attendance_mark_accepted[OF _ assms, of srt e form c d today now]
  show ?thesis by auto
qed

lemma handle_db_ok:
  assumes "db_ok db"
  shows "db_ok (handle r db)"
proof (cases r)
  case (AttendanceMark srt e form today now)
  with assms show ?thesis by (simp add: attendance_mark_db_ok)
next
  case (CreateStudent payload)
  with assms add_student_db_ok[OF assms, of payload] show ?thesis
    by (simp add: create_student_def split: sum.splits option.splits)
next
  case (UpdateStudent sid payload)
  with assms show ?thesis
    by (auto simp: update_student_def apply_update_keys o_def intro!: db_ok_students
        split: option.splits)
next
  case (DeleteStudent sid)
  with assms db_ok_filter[OF assms] show ?thesis
    by (simp add: delete_student_def split: option.splits)
next
  case (CreateStudentForm n gr sec gen reg c ext fb)
  with assms show ?thesis
    by (simp add: create_student_form_def Let_def add_student_db_ok split: sum.splits option.splits)
next
  case (UpdateStudentForm sid n gr sec gen reg ext)
  with assms show ?thesis
    by (auto simp: update_student_form_def apply_form_keys o_def intro!: db_ok_students
        split: option.splits)
next
  case (AdminClearToday today)
  with db_ok_filter_attendances[OF assms] show ?thesis
    by (simp add: admin_clear_today_def Let_def)
next
  case AdminClearAll
  with assms show ?thesis by (simp add: admin_clear_all_def db_ok_def)
next
  case (AdminClearDate target)
  with assms db_ok_filter_attendances[OF assms] show ?thesis
    by (simp add: admin_clear_date_def split: option.splits)
next
  case (AdminClearStudentsAll n)
  with assms show ?thesis by (simp add: admin_clear_students_all_def db_ok_def)
qed

lemma reachable_db_ok: "reachable db \<Longrightarrow> db_ok db"
proof (induction rule: reachable.induct)
  case start
  show ?case by (simp add: db_ok_def init_db_def)
next
  case (step db r)
  then show ?case by (simp add: handle_db_ok)
qed

lemma mark_record_attendances:
  "attendances (snd (mark_record st today now db)) = attendances db \<or>
   (\<exists>a. attendances (snd (mark_record st today now db)) = attendances db @ [a] \<and>
        att_id a \<notin> att_id ` set (attendances db))"
  using next_id_notin[of "map att_id (attendances db)"]
  by (auto simp: mark_record_def add_attendance_def Let_def split: sum.splits option.splits)


lemma attendance_mark_attendances:
  "attendances (snd (attendance_mark srt e form today now db)) = attendances db \<or>
   (\<exists>a. attendances (snd (attendance_mark srt e form today now db)) = attendances db @ [a] \<and>
        att_id a \<notin> att_id ` set (attendances db))"
proof (cases "mark_decision srt (eff_max_distance e form) (min_margin form) (dfs form)")
  case (Raise x)
  then show ?thesis by (simp add: attendance_mark_def)
next
  case (Return x)
  then show ?thesis by (simp add: attendance_mark_def)
next
  case (Continue p)
  obtain c d where p: "p = (c, d)" by (cases p)
  obtain rs db1 where ms: "mark_student c db = (rs, db1)" by (cases "mark_student c db")
  have a1: "attendances db1 = attendances db"
    using mark_student_attendances[of c db] ms by simp
  show ?thesis
  proof (cases rs)
    case (Inl x)
    with Continue p ms a1 show ?thesis by (simp add: attendance_mark_def)
  next
    case (Inr st)
    obtain ra db2 where mr: "mark_record st today now db1 = (ra, db2)"
      by (cases "mark_record st today now db1")
    have "snd (attendance_mark srt e form today now db) = db2"
      using Continue p ms Inr mr by (cases ra) (simp_all add: attendance_mark_def)
    with mark_record_attendances[of st today now db1] mr a1 show ?thesis by simp
  qed
qed


lemma removes_rows: "xs' = filter P xs \<Longrightarrow> (\<exists>P. xs' = filter P xs) \<or> Q"
  by (rule disjI1, rule exI)


lemma handle_attendances:
  "(\<exists>P. attendances (handle r db) = filter P (attendances db)) \<or>
   (\<exists>a. attendances (handle r db) = attendances db @ [a] \<and> att_id a \<notin> att_id ` set (attendances db))"
proof (cases r)
  case (AttendanceMark srt e form today now)
  from attendance_mark_attendances[of srt e form today now db] show ?thesis
  proof
    assume "attendances (snd (attendance_mark srt e form today now db)) = attendances db"
    then have "attendances (handle r db) = filter (\<lambda>_. True) (attendances db)"
      using AttendanceMark by simp
    then show ?thesis by (rule removes_rows)
  next
    assume "\<exists>a. attendances (snd (attendance_mark srt e form today now db)) = attendances db @ [a] \<and>
        att_id a \<notin> att_id ` set (attendances db)"
    then show ?thesis using AttendanceMark by simp
  qed
next
  case (CreateStudent payload)
  have "attendances (handle r db) = filter (\<lambda>_. True) (attendances db)"
    using CreateStudent
    by (simp add: create_student_def add_student_def Let_def split: sum.splits option.splits)
  then show ?thesis by (rule removes_rows)
next
  case (UpdateStudent sid payload)
  have "attendances (handle r db) = filter (\<lambda>_. True) (attendances db)"
    using UpdateStudent by (simp add: update_student_def split: option.splits)
  then show ?thesis by (rule removes_rows)
next
  case (DeleteStudent sid)
  show ?thesis
  proof (cases "db_get db sid")
    case None
    then have "attendances (handle r db) = filter (\<lambda>_. True) (attendances db)"
      using DeleteStudent by (simp add: delete_student_def)
    then show ?thesis by (rule removes_rows)
  next
    case (Some st)
    then have "attendances (handle r db) = filter (\<lambda>a. student_id a \<noteq> st_id st) (attendances db)"
      using DeleteStudent by (simp add: delete_student_def)
    then show ?thesis by (rule removes_rows)
  qed
next
  case (CreateStudentForm n gr sec gen reg c ext fb)
  have "attendances (handle r db) = filter (\<lambda>_. True) (attendances db)"
    using CreateStudentForm
    by (simp add: create_student_form_def add_student_def Let_def split: sum.splits option.splits)
  then show ?thesis by (rule removes_rows)
next
  case (UpdateStudentForm sid n gr sec gen reg ext)
  have "attendances (handle r db) = filter (\<lambda>_. True) (attendances db)"
    using UpdateStudentForm by (simp add: update_student_form_def split: option.splits)
  then show ?thesis by (rule removes_rows)
next
  case (AdminClearToday today)
  then have "attendances (handle r db) = filter (\<lambda>a. att_date a \<noteq> today) (attendances db)"
    by (simp add: admin_clear_today_def Let_def)
  then show ?thesis by (rule removes_rows)
next
  case AdminClearAll
  have "attendances (handle r db) = filter (\<lambda>_. False) (attendances db)"
    using AdminClearAll by (simp add: admin_clear_all_def)
  then show ?thesis by (rule removes_rows)
next
  case (AdminClearDate target)
  show ?thesis
  proof (cases target)
    case None
    then have "attendances (handle r db) = filter (\<lambda>_. True) (attendances db)"
      using AdminClearDate by (simp add: admin_clear_date_def)
    then show ?thesis by (rule removes_rows)
  next
    case (Some d)
    then have "attendances (handle r db) = filter (\<lambda>a. att_date a \<noteq> d) (attendances db)"
      using AdminClearDate by (simp add: admin_clear_date_def)
    then show ?thesis by (rule removes_rows)
  qed
next
  case (AdminClearStudentsAll n)
  have "attendances (handle r db) = filter (\<lambda>_. True) (attendances db)"
    using AdminClearStudentsAll by (simp add: admin_clear_students_all_def)
  then show ?thesis by (rule removes_rows)
qed


lemma handle_keeps_records:
  assumes "distinct (map att_id (attendances db))"
    and "a \<in> set (attendances db)" and "a' \<in> set (attendances (handle r db))"
    and "att_id a' = att_id a"
  shows "a' = a"
proof -
  have old: "b \<in> set (attendances db) \<Longrightarrow> att_id b = att_id a \<Longrightarrow> b = a" for b
  proof -
    assume b: "b \<in> set (attendances db)" "att_id b = att_id a"
    have "inj_on att_id (set (attendances db))" using assms(1) by (simp add: distinct_map)
    from inj_onD[OF this b(2) b(1) assms(2)] show "b = a" .
  qed
  from handle_attendances[of r db] show ?thesis
  proof
    assume "\<exists>P. attendances (handle r db) = filter P (attendances db)"
    with assms(3) have "a' \<in> set (attendances db)" by auto
    with old assms(4) show ?thesis by simp
  next
    assume "\<exists>x. attendances (handle r db) = attendances db @ [x] \<and> att_id x \<notin> att_id ` set (attendances db)"
    then obtain x where x: "attendances (handle r db) = attendances db @ [x]"
      "att_id x \<notin> att_id ` set (attendances db)" by blast
    with assms(3) have "a' \<in> set (attendances db) \<or> a' = x" by auto
    then show ?thesis
    proof
      assume "a' \<in> set (attendances db)"
      with old assms(4) show ?thesis by simp
    next
      assume ax: "a' = x"
      have "att_id a \<in> att_id ` set (attendances db)" using assms(2) by (rule imageI)
      with x(2) ax assms(4) show ?thesis by simp
    qed
  qed
qed

lemma ex_first_mark:
  "handle (AttendanceMark ex_sort None (ex_form [ex_cand ''luis'' 0.25]) ex_day (ex_at 7 15 0)) init_db =
     \<lparr>students = [\<lparr>st_id = 1, code = ''luis'', name = ''luis'', grade = None, st_section = None,
                    gender = None, registration_date = None, photo_path = None\<rparr>],
      attendances = [\<lparr>att_id = 1, student_id = 1, att_date = ex_day, att_time = ex_at 7 15 0,
                       status = ''Puntual''\<rparr>]\<rparr>"
  by (simp add: attendance_mark_def mark_decision_def ex_sort_def float_eval eff_max_distance_def
        defaults_for_model_def lower_def lower_char_def ex_form_def ex_cand_def ex_at_def ex_day_def
        basename_def dirname_def is_sep_def
        mark_student_def mark_record_def add_student_def add_attendance_def init_db_def next_id_def Let_def
        datetime_lt_def cutoff_def time_lt_def date_lt_def)

lemma ex_second_mark:
  "handle (AttendanceMark ex_sort None (ex_form [ex_cand ''luis'' 0.25]) ex_day (ex_at 9 0 0))
     \<lparr>students = [\<lparr>st_id = 1, code = ''luis'', name = ''luis'', grade = None, st_section = None,
                    gender = None, registration_date = None, photo_path = None\<rparr>],
      attendances = [\<lparr>att_id = 1, student_id = 1, att_date = ex_day, att_time = ex_at 7 15 0,
                       status = ''Puntual''\<rparr>]\<rparr> =
     \<lparr>students = [\<lparr>st_id = 1, code = ''luis'', name = ''luis'', grade = None, st_section = None,
                    gender = None, registration_date = None, photo_path = None\<rparr>],
      attendances = [\<lparr>att_id = 1, student_id = 1, att_date = ex_day, att_time = ex_at 7 15 0,
                       status = ''Puntual''\<rparr>]\<rparr>"
  by (simp add: attendance_mark_def mark_decision_def ex_sort_def float_eval eff_max_distance_def
        defaults_for_model_def lower_def lower_char_def ex_form_def ex_cand_def ex_at_def ex_day_def
        basename_def dirname_def is_sep_def
        mark_student_def mark_record_def add_student_def add_attendance_def init_db_def next_id_def Let_def
        datetime_lt_def cutoff_def time_lt_def date_lt_def)

text \<open>
  C1: in every state reachable from the empty database by the writing requests (marking,
  creating, updating and deleting students, the bulk clears), a student key and a date have
  at most one attendance record; and no request changes a record that exists: a record of
  the next state that has the key of a record of this state is that record, with its date,
  time and status.
\<close>

theorem ledger_invariant:
  assumes "reachable db"
  shows "(\<forall>sid d. length (filter (\<lambda>a. student_id a = sid \<and> att_date a = d) (attendances db)) \<le> 1) \<and>
         (\<forall>r. \<forall>a \<in> set (attendances db). \<forall>a' \<in> set (attendances (handle r db)).
              att_id a' = att_id a \<longrightarrow>
                a' = a \<and> att_date a' = att_date a \<and> att_time a' = att_time a \<and> status a' = status a)"
proof -
  have ok: "db_ok db" using assms by (rule reachable_db_ok)
  have one: "length (filter (\<lambda>a. student_id a = sid \<and> att_date a = d) (attendances db)) \<le> 1" for sid d
  proof -
    have "distinct (map (\<lambda>a. (student_id a, att_date a)) (attendances db))"
      using ok by (simp add: db_ok_def)
    then have "length (filter (\<lambda>a. (student_id a, att_date a) = (sid, d)) (attendances db)) \<le> 1"
      by (rule filter_key_distinct)
    then show ?thesis by simp
  qed
  have keep: "a' = a" if "a \<in> set (attendances db)" "a' \<in> set (attendances (handle r db))"
    "att_id a' = att_id a" for r a a'
    using handle_keeps_records[of db a a' r] ok that by (simp add: db_ok_def)
  show ?thesis
  proof (intro conjI allI ballI impI)
    fix sid d
    show "length (filter (\<lambda>a. student_id a = sid \<and> att_date a = d) (attendances db)) \<le> 1"
      by (rule one)
  next
    fix r a a'
    assume "a \<in> set (attendances db)" "a' \<in> set (attendances (handle r db))" "att_id a' = att_id a"
    then have "a' = a" by (rule keep)
    then show "a' = a" "att_date a' = att_date a" "att_time a' = att_time a" "status a' = status a"
      by simp_all
  qed
qed

theorem ledger_invariant_witness:
  "reachable (handle (AttendanceMark ex_sort None (ex_form [ex_cand ''luis'' 0.25]) ex_day (ex_at 7 15 0)) init_db) \<and>
   length (filter (\<lambda>a. student_id a = 1 \<and> att_date a = ex_day)
     (attendances (handle (AttendanceMark ex_sort None (ex_form [ex_cand ''luis'' 0.25]) ex_day (ex_at 7 15 0)) init_db))) \<le> 1 \<and>
   attendances (handle (AttendanceMark ex_sort None (ex_form [ex_cand ''luis'' 0.25]) ex_day (ex_at 9 0 0))
      (handle (AttendanceMark ex_sort None (ex_form [ex_cand ''luis'' 0.25]) ex_day (ex_at 7 15 0)) init_db)) =
     [\<lparr>att_id = 1, student_id = 1, att_date = ex_day, att_time = ex_at 7 15 0, status = ''Puntual''\<rparr>]"
proof -
  let ?m1 = "AttendanceMark ex_sort None (ex_form [ex_cand ''luis'' 0.25]) ex_day (ex_at 7 15 0)"
  let ?m2 = "AttendanceMark ex_sort None (ex_form [ex_cand ''luis'' 0.25]) ex_day (ex_at 9 0 0)"
  let ?a = "\<lparr>att_id = 1, student_id = 1, att_date = ex_day, att_time = ex_at 7 15 0, status = ''Puntual''\<rparr>"
  have r: "reachable (handle ?m1 init_db)"
    by (rule reachable.step[OF reachable.start])
  have old: "?a \<in> set (attendances (handle ?m1 init_db))"
    by (simp only: ex_first_mark) simp
  obtain a' where a': "attendances (handle ?m2 (handle ?m1 init_db)) = [a']" "att_id a' = 1"
    by (simp only: ex_first_mark ex_second_mark) simp
  then have new: "a' \<in> set (attendances (handle ?m2 (handle ?m1 init_db)))" by simp
  from ledger_invariant[OF r] have
    one: "length (filter (\<lambda>a. student_id a = 1 \<and> att_date a = ex_day) (attendances (handle ?m1 init_db))) \<le> 1"
    and keep: "\<forall>a \<in> set (attendances (handle ?m1 init_db)).
               \<forall>a' \<in> set (attendances (handle ?m2 (handle ?m1 init_db))).
                 att_id a' = att_id a \<longrightarrow> a' = a \<and> att_date a' = att_date a \<and> att_time a' = att_time a \<and> status a' = status a"
    by blast+
  from keep old new a'(2) have "a' = ?a" by force
  with a'(1) r one show ?thesis by simp
qed

subsection \<open>Deleting a student\<close>

lemma db_get_Some: "db_get db sid = Some st \<Longrightarrow> st \<in> set (students db) \<and> st_id st = sid"
  by (auto simp: db_get_def find_Some_iff)

text \<open>
  C10: deleting a student that exists succeeds, removes the student and every attendance
  record with the student's key, and leaves every other student and every record of another
  student as it was, in the same order.
\<close>

theorem delete_student_cascade:
  assumes "db_get db sid = Some st"
  shows "fst (delete_student sid db) = Inr [(''deleted'', JBool True), (''files_cleaned'', JBool True)] \<and>
         filter (\<lambda>a. student_id a = sid) (attendances (snd (delete_student sid db))) = [] \<and>
         filter (\<lambda>s. st_id s = sid) (students (snd (delete_student sid db))) = [] \<and>
         students (snd (delete_student sid db)) = filter (\<lambda>s. st_id s \<noteq> sid) (students db) \<and>
         attendances (snd (delete_student sid db)) =
           filter (\<lambda>a. student_id a \<noteq> sid) (attendances db)"
proof -
  from db_get_Some[OF assms] have sid: "st_id st = sid" by simp
  with assms show ?thesis
    by (simp add: delete_student_def filter_empty_conv)
qed

theorem delete_student_cascade_witness:
  "fst (delete_student 1
       \<lparr>students = [\<lparr>st_id = 1, code = ''luis'', name = ''luis'', grade = None, st_section = None,
                      gender = None, registration_date = None, photo_path = None\<rparr>,
                    \<lparr>st_id = 2, code = ''ana'', name = ''ana'', grade = None, st_section = None,
                      gender = None, registration_date = None, photo_path = None\<rparr>],
        attendances = [\<lparr>att_id = 1, student_id = 1, att_date = ex_day, att_time = ex_at 7 15 0,
                         status = ''Puntual''\<rparr>,
                       \<lparr>att_id = 2, student_id = 2, att_date = ex_day, att_time = ex_at 7 40 0,
                         status = ''Tarde''\<rparr>]\<rparr>) =
     Inr [(''deleted'', JBool True), (''files_cleaned'', JBool True)] \<and>
   students (snd (delete_student 1
       \<lparr>students = [\<lparr>st_id = 1, code = ''luis'', name = ''luis'', grade = None, st_section = None,
                      gender = None, registration_date = None, photo_path = None\<rparr>,
                    \<lparr>st_id = 2, code = ''ana'', name = ''ana'', grade = None, st_section = None,
                      gender = None, registration_date = None, photo_path = None\<rparr>],
        attendances = [\<lparr>att_id = 1, student_id = 1, att_date = ex_day, att_time = ex_at 7 15 0,
                         status = ''Puntual''\<rparr>,
                       \<lparr>att_id = 2, student_id = 2, att_date = ex_day, att_time = ex_at 7 40 0,
                         status = ''Tarde''\<rparr>]\<rparr>)) =
     [\<lparr>st_id = 2, code = ''ana'', name = ''ana'', grade = None, st_section = None,
        gender = None, registration_date = None, photo_path = None\<rparr>] \<and>
   attendances (snd (delete_student 1
       \<lparr>students = [\<lparr>st_id = 1, code = ''luis'', name = ''luis'', grade = None, st_section = None,
                      gender = None, registration_date = None, photo_path = None\<rparr>,
                    \<lparr>st_id = 2, code = ''ana'', name = ''ana'', grade = None, st_section = None,
                      gender = None, registration_date = None, photo_path = None\<rparr>],
        attendances = [\<lparr>att_id = 1, student_id = 1, att_date = ex_day, att_time = ex_at 7 15 0,
                         status = ''Puntual''\<rparr>,
                       \<lparr>att_id = 2, student_id = 2, att_date = ex_day, att_time = ex_at 7 40 0,
                         status = ''Tarde''\<rparr>]\<rparr>)) =
     [\<lparr>att_id = 2, student_id = 2, att_date = ex_day, att_time = ex_at 7 40 0, status = ''Tarde''\<rparr>]"
proof -
  let ?db = "\<lparr>students = [\<lparr>st_id = 1, code = ''luis'', name = ''luis'', grade = None, st_section = None,
                      gender = None, registration_date = None, photo_path = None\<rparr>,
                    \<lparr>st_id = 2, code = ''ana'', name = ''ana'', grade = None, st_section = None,
                      gender = None, registration_date = None, photo_path = None\<rparr>],
        attendances = [\<lparr>att_id = 1, student_id = 1, att_date = ex_day, att_time = ex_at 7 15 0,
                         status = ''Puntual''\<rparr>,
                       \<lparr>att_id = 2, student_id = 2, att_date = ex_day, att_time = ex_at 7 40 0,
                         status = ''Tarde''\<rparr>]\<rparr>"
  have g: "db_get ?db 1 = Some \<lparr>st_id = 1, code = ''luis'', name = ''luis'', grade = None, st_section = None,
                      gender = None, registration_date = None, photo_path = None\<rparr>"
    by (simp add: db_get_def)
  from delete_student_cascade[OF g] show ?thesis by simp
qed

subsection \<open>Today's metrics\<close>

text \<open>
  C7, as the code has it: \<^verbatim>\<open>metrics_today\<close> reports the number of records dated today,
  the numbers of those with status \<^verbatim>\<open>Puntual\<close> and \<^verbatim>\<open>Tarde\<close>, and as absent the
  number of students minus the number of today's records, but never less than zero.
\<close>

theorem metrics_today_counts:
  "metrics_today today db =
     [(''total_today'', JInt (int (length (filter (\<lambda>a. att_date a = today) (attendances db))))),
      (''punctual_today'',
         JInt (int (length (filter (\<lambda>a. att_date a = today \<and> status a = ''Puntual'') (attendances db))))),
      (''late_today'',
         JInt (int (length (filter (\<lambda>a. att_date a = today \<and> status a = ''Tarde'') (attendances db))))),
      (''absent_today'',
         JInt (max (int (length (students db)) -
                    int (length (filter (\<lambda>a. att_date a = today) (attendances db)))) 0))]"
  by (simp add: metrics_today_def Let_def conj_commute)

text \<open>
  The difference itself is not what is reported when it is negative. Marking a recognised
  face and then clearing the students leaves today's record without a student: there are no
  students and one record, the difference is -1 and the report says 0.
\<close>

lemma ex_orphan_state:
  "handle (AdminClearStudentsAll 0)
     (handle (AttendanceMark ex_sort None (ex_form [ex_cand ''luis'' 0.25]) ex_day (ex_at 7 15 0)) init_db) =
   \<lparr>students = [],
    attendances = [\<lparr>att_id = 1, student_id = 1, att_date = ex_day, att_time = ex_at 7 15 0,
                     status = ''Puntual''\<rparr>]\<rparr>"
  by (simp only: ex_first_mark) (simp add: admin_clear_students_all_def)

theorem absent_today_counterexample:
  "reachable (handle (AdminClearStudentsAll 0)
     (handle (AttendanceMark ex_sort None (ex_form [ex_cand ''luis'' 0.25]) ex_day (ex_at 7 15 0)) init_db)) \<and>
   metrics_today ex_day (handle (AdminClearStudentsAll 0)
     (handle (AttendanceMark ex_sort None (ex_form [ex_cand ''luis'' 0.25]) ex_day (ex_at 7 15 0)) init_db)) =
     [(''total_today'', JInt 1), (''punctual_today'', JInt 1), (''late_today'', JInt 0),
      (''absent_today'', JInt 0)] \<and>
   int (length (students (handle (AdminClearStudentsAll 0)
     (handle (AttendanceMark ex_sort None (ex_form [ex_cand ''luis'' 0.25]) ex_day (ex_at 7 15 0)) init_db)))) -
   int (length (filter (\<lambda>a. att_date a = ex_day) (attendances (handle (AdminClearStudentsAll 0)
     (handle (AttendanceMark ex_sort None (ex_form [ex_cand ''luis'' 0.25]) ex_day (ex_at 7 15 0)) init_db))))) = - 1"
proof -
  have "reachable (handle (AdminClearStudentsAll 0)
     (handle (AttendanceMark ex_sort None (ex_form [ex_cand ''luis'' 0.25]) ex_day (ex_at 7 15 0)) init_db))"
    by (intro reachable.step reachable.start)
  then show ?thesis
    by (simp only: ex_orphan_state) (simp add: metrics_today_def)
qed

subsection \<open>The summary never divides by zero\<close>

lemma pct_total: "pct n d = Inr (if d = 0 then 0 else fmul (fdiv n d) 100)"
  by (simp add: pct_def py_truediv_def)

lemma py_round2_zero: "py_round2 0 = 0"
  by (simp add: py_round2_def round_half_even_def round_double_def)

text \<open>
  C9: \<^verbatim>\<open>metrics_summary\<close> returns a result for every input, never the division error;
  \<^verbatim>\<open>records_total\<close> is the number of rows of the filtered query over the resolved range,
  and when that query is empty \<^verbatim>\<open>punctuality_pct\<close> and \<^verbatim>\<open>late_pct\<close> are both 0.
\<close>

theorem metrics_summary_total:
  "\<exists>n p l a.
     metrics_summary period gr sec start0 end0 today db =
       Inr [(''students_total'', JInt n),
            (''records_total'',
               JInt (int (length (attendance_query (fst (resolve_period period start0 end0 today))
                                    (snd (resolve_period period start0 end0 today)) gr sec db)))),
            (''punctuality_pct'', JNum p), (''late_pct'', JNum l), (''absent_pct'', JNum a)] \<and>
     (attendance_query (fst (resolve_period period start0 end0 today))
        (snd (resolve_period period start0 end0 today)) gr sec db = [] \<longrightarrow> p = 0 \<and> l = 0)"
  by (cases "resolve_period period start0 end0 today")
     (simp add: metrics_summary_def Let_def pct_total py_round2_zero)

theorem metrics_summary_total_witness:
  "\<exists>n a. metrics_summary None None None (Some ex_day) (Some ex_day) ex_day
       \<lparr>students = [\<lparr>st_id = 1, code = ''luis'', name = ''luis'', grade = None, st_section = None,
                      gender = None, registration_date = None, photo_path = None\<rparr>],
        attendances = []\<rparr> =
     Inr [(''students_total'', JInt n), (''records_total'', JInt 0),
          (''punctuality_pct'', JNum 0), (''late_pct'', JNum 0), (''absent_pct'', JNum a)]"
proof -
  let ?db = "\<lparr>students = [\<lparr>st_id = 1, code = ''luis'', name = ''luis'', grade = None, st_section = None,
                      gender = None, registration_date = None, photo_path = None\<rparr>],
        attendances = []\<rparr>"
  have rp: "resolve_period None (Some ex_day) (Some ex_day) ex_day = (Some ex_day, Some ex_day)"
    by (simp add: resolve_period_def truthy_def)
  have q: "attendance_query (Some ex_day) (Some ex_day) None None ?db = []"
    by (simp add: attendance_query_def joined_def)
  from metrics_summary_total[of None None None "Some ex_day" "Some ex_day" ex_day ?db]
  show ?thesis
    unfolding rp by (auto simp: q)
qed

subsection \<open>The absence percentage of the summary\<close>

lemma set_joined:
  "set (joined db) = {(a, s). a \<in> set (attendances db) \<and> s \<in> set (students db) \<and> st_id s = student_id a}"
  by (auto simp: joined_def)

lemma in_range_both:
  "in_range (Some d1) (Some d2) a \<longleftrightarrow> date_le d1 (att_date a) \<and> date_le (att_date a) d2"
  by (simp add: in_range_def)

lemma present_ids:
  "(\<lambda>(a, s). student_id a) ` set (attendance_query (Some d1) (Some d2) gr sec db) =
   st_id ` set (present_students d1 d2 gr sec db)"
proof (intro set_eqI iffI)
  fix i
  assume "i \<in> (\<lambda>(a, s). student_id a) ` set (attendance_query (Some d1) (Some d2) gr sec db)"
  then obtain a s where as: "(a, s) \<in> set (attendance_query (Some d1) (Some d2) gr sec db)"
    and i: "i = student_id a" by auto
  from as have f: "a \<in> set (attendances db)" "s \<in> set (students db)" "st_id s = student_id a"
    "date_le d1 (att_date a)" "date_le (att_date a) d2" "student_matches gr sec s"
    by (auto simp: attendance_query_def set_joined in_range_both)
  then have "s \<in> set (present_students d1 d2 gr sec db)"
    by (auto simp: present_students_def student_query_def list_ex_iff)
  with f(3) i show "i \<in> st_id ` set (present_students d1 d2 gr sec db)" by force
next
  fix i
  assume "i \<in> st_id ` set (present_students d1 d2 gr sec db)"
  then obtain s where s: "s \<in> set (present_students d1 d2 gr sec db)" and i: "i = st_id s" by auto
  from s obtain a where f: "s \<in> set (students db)" "student_matches gr sec s"
    "a \<in> set (attendances db)" "student_id a = st_id s"
    "date_le d1 (att_date a)" "date_le (att_date a) d2"
    by (auto simp: present_students_def student_query_def list_ex_iff)
  then have "(a, s) \<in> set (attendance_query (Some d1) (Some d2) gr sec db)"
    by (simp add: attendance_query_def set_joined in_range_both)
  with f(4) i show "i \<in> (\<lambda>(a, s). student_id a) ` set (attendance_query (Some d1) (Some d2) gr sec db)"
    by force
qed

lemma present_count:
  assumes "distinct (map st_id (students db))"
  shows "length (remdups (map (\<lambda>(a, s). student_id a) (attendance_query (Some d1) (Some d2) gr sec db))) =
         length (present_students d1 d2 gr sec db)"
proof -
  have d: "distinct (map st_id (present_students d1 d2 gr sec db))"
    using assms by (simp add: present_students_def student_query_def distinct_map_filter)
  have "length (remdups (map (\<lambda>(a, s). student_id a) (attendance_query (Some d1) (Some d2) gr sec db))) =
        card ((\<lambda>(a, s). student_id a) ` set (attendance_query (Some d1) (Some d2) gr sec db))"
    by (simp add: length_remdups_card_conv)
  also have "\<dots> = card (st_id ` set (present_students d1 d2 gr sec db))"
    by (simp add: present_ids)
  also have "\<dots> = card (set (map st_id (present_students d1 d2 gr sec db)))"
    by simp
  also have "\<dots> = length (map st_id (present_students d1 d2 gr sec db))"
    using d by (rule distinct_card)
  finally show ?thesis by simp
qed

lemma ex_five_ids: "distinct (map st_id (students ex_five))"
  by (simp add: ex_five_def ex_student_def)

text \<open>
  C5, as the code has it: for an inclusive range with both bounds given, any filters and a
  students table whose keys are distinct, \<^verbatim>\<open>absent_pct\<close> is the percentage
  (students_total - present) / students_total * 100, computed in floats (the quotient of the
  two integers rounded to a double, its product with 100 rounded to a double) and then rounded
  to two decimals by \<^verbatim>\<open>round\<close>, where present counts the filtered students that have at
  least one record dated within the range; it is 0 when no student matches the filters. With
  five students of which two have records in the range it is 60.
\<close>

theorem metrics_summary_absent:
  assumes "distinct (map st_id (students db))"
  shows "\<exists>t p l.
     metrics_summary period gr sec (Some d1) (Some d2) today db =
       Inr [(''students_total'', JInt (int (length (student_query gr sec db)))),
            (''records_total'', JInt t), (''punctuality_pct'', JNum p), (''late_pct'', JNum l),
            (''absent_pct'',
               JNum (py_round2
                 (if length (student_query gr sec db) = 0 then 0
                  else fmul (fdiv (int (length (student_query gr sec db)) -
                                   int (length (present_students d1 d2 gr sec db)))
                                  (int (length (student_query gr sec db)))) 100)))]"
proof -
  have rp: "resolve_period period (Some d1) (Some d2) today = (Some d1, Some d2)"
    by (simp add: resolve_period_def)
  show ?thesis
    by (simp add: metrics_summary_def rp Let_def pct_total present_count[OF assms])
qed

theorem metrics_summary_absent_witness:
  "\<exists>t p l.
     metrics_summary None None None (Some (ex_date 11 1)) (Some (ex_date 11 7)) ex_day ex_five =
       Inr [(''students_total'', JInt 5), (''records_total'', JInt t),
            (''punctuality_pct'', JNum p), (''late_pct'', JNum l), (''absent_pct'', JNum 60)]"
proof -
  have n: "length (student_query None None ex_five) = 5"
    by (simp add: student_query_def student_matches_def truthy_def ex_five_def)
  have a: "length (present_students (ex_date 11 1) (ex_date 11 7) None None ex_five) = 2"
    by (simp add: present_students_def student_query_def student_matches_def truthy_def ex_five_def
        ex_student_def ex_record_def ex_date_def date_le_def date_lt_def)
  from metrics_summary_absent[OF ex_five_ids, of None None None "ex_date 11 1" "ex_date 11 7" ex_day]
  show ?thesis unfolding n a by (simp add: float_eval)
qed

text \<open>
  Without the rounding to two decimals the claim fails: with three students of which one has
  a record in the range the summary reports the double of 66.67, which is neither
  (3 - 1) / 3 * 100 nor the float that the division and the multiplication give.
\<close>

theorem absent_pct_rounded_counterexample:
  "metrics_summary None None None (Some (ex_date 11 1)) (Some (ex_date 11 7)) ex_day ex_three =
     Inr [(''students_total'', JInt 3), (''records_total'', JInt 1),
          (''punctuality_pct'', JNum 0), (''late_pct'', JNum 100),
          (''absent_pct'', JNum (4691484174324859 / 2 ^ 46))] \<and>
   round_double (6667 / 100) = 4691484174324859 / 2 ^ 46 \<and>
   length (student_query None None ex_three) = 3 \<and>
   length (present_students (ex_date 11 1) (ex_date 11 7) None None ex_three) = 1 \<and>
   (3 - 1) / 3 * 100 \<noteq> (4691484174324859 / 2 ^ 46 :: real) \<and>
   fmul (fdiv (3 - 1) 3) 100 \<noteq> 4691484174324859 / 2 ^ 46"
  by (simp add: metrics_summary_def resolve_period_def attendance_query_def student_query_def joined_def
      in_range_def student_matches_def truthy_def present_students_def
      ex_three_def ex_student_def ex_record_def ex_date_def date_le_def date_lt_def
      pct_def py_truediv_def)
     (simp add: float_eval)


subsection \<open>The arrival-time buckets\<close>

text \<open>
  From 07:30 on, the chain of tests puts a time of day in the bucket whose interval holds it.
  Before 07:30 the first test fails and the second, which has no lower bound, succeeds.
\<close>

lemma arrival_bucket_before_cutoff:
  "time_lt t (hm 7 30) \<Longrightarrow> arrival_bucket t = ''7:45-8:00''"
  by (cases t) (auto simp: arrival_bucket_def time_le_def time_lt_def hm_def)

lemma arrival_bucket_from_cutoff:
  "time_le (hm 7 30) t \<Longrightarrow>
     arrival_bucket t =
       (if time_lt t (hm 7 45) then ''7:30-7:45''
        else if time_lt t (hm 8 0) then ''7:45-8:00''
        else if time_lt t (hm 8 15) then ''8:00-8:15''
        else if time_lt t (hm 8 30) then ''8:15-8:30''
        else ''8:30+'')"
  by (simp add: arrival_bucket_def)

text \<open>
  C6 fails on the code for a record before the cutoff: a record timed 07:00:00 is counted in
  the bucket \<^verbatim>\<open>7:45-8:00\<close>, although 07:00:00 is before 07:45.
\<close>

theorem detailed_early_arrival:
  "metrics_detailed None None None None
     \<lparr>students = [ex_student 1 ''ana''],
      attendances = [ex_record 1 1 (ex_date 11 3) 7 0 ''Puntual'']\<rparr> =
     [(''gender_distribution'', JObj [(''-'', JInt 1)]),
      (''arrival_buckets'',
         JObj [(''7:30-7:45'', JInt 0), (''7:45-8:00'', JInt 1), (''8:00-8:15'', JInt 0),
               (''8:15-8:30'', JInt 0), (''8:30+'', JInt 0)]),
      (''count'', JInt 1)] \<and>
   \<not> time_le (hm 7 45) (dt_time (att_time (ex_record 1 1 (ex_date 11 3) 7 0 ''Puntual'')))"
  by (simp add: metrics_detailed_def attendance_query_def joined_def in_range_def student_matches_def
      truthy_def ex_student_def ex_record_def detailed_row_def dict_count_def dict_incr_def
      arrival_bucket_def time_le_def time_lt_def hm_def)

end
